theory Spec2Isabelle
  imports Complex_Main
begin

section \<open>Floating-point values\<close>

text \<open>
  The renderer computes on C++ \<^verbatim>\<open>float\<close>. A value is modelled as a real number or one of
  the three IEEE 754 special values. Finite arithmetic is exact (rounding and overflow
  are idealised away, and there is a single zero, read as \<^verbatim>\<open>+0\<close>), but every operation
  produces and propagates infinities and NaN as IEEE 754 prescribes: a division by zero
  is an infinity or NaN, \<^verbatim>\<open>0 * inf\<close> is NaN, and every ordered comparison with NaN is
  false. Where rounding decides what the code returns (the 2D opacity on the edges of
  its triangle) the rounding is part of the model, and the statements about the
  sampling loop speak of the loop's own additions and comparisons.
\<close>

datatype cfloat = Num real | PosInf | NegInf | NaN

fun fneg :: "cfloat \<Rightarrow> cfloat" where
  "fneg (Num a) = Num (- a)"
| "fneg PosInf = NegInf"
| "fneg NegInf = PosInf"
| "fneg NaN = NaN"

fun fadd :: "cfloat \<Rightarrow> cfloat \<Rightarrow> cfloat" where
  "fadd (Num a) (Num b) = Num (a + b)"
| "fadd NaN _ = NaN"
| "fadd _ NaN = NaN"
| "fadd PosInf NegInf = NaN"
| "fadd NegInf PosInf = NaN"
| "fadd PosInf _ = PosInf"
| "fadd _ PosInf = PosInf"
| "fadd NegInf _ = NegInf"
| "fadd _ NegInf = NegInf"

definition fsub :: "cfloat \<Rightarrow> cfloat \<Rightarrow> cfloat" where
  "fsub a b = fadd a (fneg b)"

text \<open>The sign of a value that is not NaN: \<open>1\<close>, \<open>0\<close> or \<open>- 1\<close>.\<close>

fun fsign :: "cfloat \<Rightarrow> int" where
  "fsign (Num a) = (if 0 < a then 1 else if a < 0 then - 1 else 0)"
| "fsign PosInf = 1"
| "fsign NegInf = - 1"
| "fsign NaN = 0"

fun fmul :: "cfloat \<Rightarrow> cfloat \<Rightarrow> cfloat" where
  "fmul (Num a) (Num b) = Num (a * b)"
| "fmul NaN _ = NaN"
| "fmul _ NaN = NaN"
| "fmul a b =
     (if fsign a * fsign b = 0 then NaN
      else if 0 < fsign a * fsign b then PosInf else NegInf)"

text \<open>
  Division. A finite nonzero value divided by zero is an infinity of the dividend's
  sign, \<^verbatim>\<open>0 / 0\<close> and \<^verbatim>\<open>inf / inf\<close> are NaN, a finite value divided by an infinity
  is zero.
\<close>

fun fdiv :: "cfloat \<Rightarrow> cfloat \<Rightarrow> cfloat" where
  "fdiv NaN _ = NaN"
| "fdiv _ NaN = NaN"
| "fdiv (Num a) (Num b) =
     (if b \<noteq> 0 then Num (a / b)
      else if a = 0 then NaN else if 0 < a then PosInf else NegInf)"
| "fdiv (Num a) _ = Num 0"
| "fdiv a (Num b) = (if (0 \<le> b) = (a = PosInf) then PosInf else NegInf)"
| "fdiv _ _ = NaN"

fun flt :: "cfloat \<Rightarrow> cfloat \<Rightarrow> bool" where
  "flt (Num a) (Num b) = (a < b)"
| "flt NaN _ = False"
| "flt _ NaN = False"
| "flt PosInf _ = False"
| "flt _ NegInf = False"
| "flt _ _ = True"

fun fle :: "cfloat \<Rightarrow> cfloat \<Rightarrow> bool" where
  "fle (Num a) (Num b) = (a \<le> b)"
| "fle NaN _ = False"
| "fle _ NaN = False"
| "fle NegInf _ = True"
| "fle _ PosInf = True"
| "fle _ _ = False"

definition fgt :: "cfloat \<Rightarrow> cfloat \<Rightarrow> bool" where
  "fgt a b = flt b a"

definition fge :: "cfloat \<Rightarrow> cfloat \<Rightarrow> bool" where
  "fge a b = fle b a"

fun fabs :: "cfloat \<Rightarrow> cfloat" where
  "fabs (Num a) = Num \<bar>a\<bar>"
| "fabs PosInf = PosInf"
| "fabs NegInf = PosInf"
| "fabs NaN = NaN"

fun fsqrt :: "cfloat \<Rightarrow> cfloat" where
  "fsqrt (Num a) = (if 0 \<le> a then Num (sqrt a) else NaN)"
| "fsqrt PosInf = PosInf"
| "fsqrt NegInf = NaN"
| "fsqrt NaN = NaN"

fun fisnan :: "cfloat \<Rightarrow> bool" where
  "fisnan NaN = True"
| "fisnan _ = False"

text \<open>
  \<^verbatim>\<open>std::max(a, b)\<close> is \<^verbatim>\<open>(a < b) ? b : a\<close> and \<^verbatim>\<open>std::min(a, b)\<close> is
  \<^verbatim>\<open>(b < a) ? b : a\<close>: when a comparison involves NaN the first argument is returned.
\<close>

definition std_max :: "cfloat \<Rightarrow> cfloat \<Rightarrow> cfloat" where
  "std_max a b = (if flt a b then b else a)"

definition std_min :: "cfloat \<Rightarrow> cfloat \<Rightarrow> cfloat" where
  "std_min a b = (if flt b a then b else a)"

text \<open>
  \<^verbatim>\<open>std::pow(std::abs(x), y)\<close>, the only use of \<^verbatim>\<open>pow\<close> in the renderer, with the special
  cases of C99 Annex F for a base that is not negative.
\<close>

fun pow_abs :: "cfloat \<Rightarrow> cfloat \<Rightarrow> cfloat" where
  "pow_abs x (Num b) =
     (if b = 0 then Num 1
      else case fabs x of
        Num a \<Rightarrow> (if a = 0 then (if 0 < b then Num 0 else PosInf) else Num (a powr b))
      | PosInf \<Rightarrow> (if 0 < b then PosInf else Num 0)
      | _ \<Rightarrow> NaN)"
| "pow_abs x PosInf =
     (case fabs x of
        Num a \<Rightarrow> (if a < 1 then Num 0 else if a = 1 then Num 1 else PosInf)
      | PosInf \<Rightarrow> PosInf
      | _ \<Rightarrow> NaN)"
| "pow_abs x NegInf =
     (case fabs x of
        Num a \<Rightarrow> (if a < 1 then PosInf else if a = 1 then Num 1 else Num 0)
      | PosInf \<Rightarrow> Num 0
      | _ \<Rightarrow> NaN)"
| "pow_abs x NaN = (if fabs x = Num 1 then Num 1 else NaN)"

text \<open>
  \<^verbatim>\<open>static_cast<size_t>(x)\<close> truncates toward zero. The C++ standard leaves the
  conversion undefined when the truncated value is not representable in the destination
  type (here a 64-bit \<^verbatim>\<open>size_t\<close>), which includes every NaN and infinity: the model
  returns \<open>None\<close> there.
\<close>

definition trunc_zero :: "real \<Rightarrow> int" where
  "trunc_zero r = (if 0 \<le> r then \<lfloor>r\<rfloor> else \<lceil>r\<rceil>)"

fun size_t_of_float :: "cfloat \<Rightarrow> nat option" where
  "size_t_of_float (Num r) =
     (if 0 \<le> trunc_zero r \<and> trunc_zero r < 2 ^ 64 then Some (nat (trunc_zero r)) else None)"
| "size_t_of_float _ = None"

section \<open>Vectors\<close>

datatype vec3 = Vec3 (vx: cfloat) (vy: cfloat) (vz: cfloat)

datatype vec4 = Vec4 (cx: cfloat) (cy: cfloat) (cz: cfloat) (ca: cfloat)

definition vadd :: "vec3 \<Rightarrow> vec3 \<Rightarrow> vec3" where
  "vadd u v = Vec3 (fadd (vx u) (vx v)) (fadd (vy u) (vy v)) (fadd (vz u) (vz v))"

definition vsub :: "vec3 \<Rightarrow> vec3 \<Rightarrow> vec3" where
  "vsub u v = Vec3 (fsub (vx u) (vx v)) (fsub (vy u) (vy v)) (fsub (vz u) (vz v))"

definition vmul :: "vec3 \<Rightarrow> vec3 \<Rightarrow> vec3" where
  "vmul u v = Vec3 (fmul (vx u) (vx v)) (fmul (vy u) (vy v)) (fmul (vz u) (vz v))"

definition vscale :: "cfloat \<Rightarrow> vec3 \<Rightarrow> vec3" where
  "vscale s v = Vec3 (fmul s (vx v)) (fmul s (vy v)) (fmul s (vz v))"

definition vscaler :: "vec3 \<Rightarrow> cfloat \<Rightarrow> vec3" where
  "vscaler v s = Vec3 (fmul (vx v) s) (fmul (vy v) s) (fmul (vz v) s)"

definition vsplat :: "cfloat \<Rightarrow> vec3" where
  "vsplat s = Vec3 s s s"

text \<open>\<^verbatim>\<open>glm::dot\<close> multiplies componentwise and sums the components left to right.\<close>

definition dot :: "vec3 \<Rightarrow> vec3 \<Rightarrow> cfloat" where
  "dot u v = fadd (fadd (fmul (vx u) (vx v)) (fmul (vy u) (vy v))) (fmul (vz u) (vz v))"

text \<open>\<^verbatim>\<open>glm::normalize(v)\<close> is \<^verbatim>\<open>v * inversesqrt(dot(v, v))\<close>.\<close>

definition inversesqrt :: "cfloat \<Rightarrow> cfloat" where
  "inversesqrt s = fdiv (Num 1) (fsqrt s)"

definition normalize :: "vec3 \<Rightarrow> vec3" where
  "normalize v = vscaler v (inversesqrt (dot v v))"

text \<open>\<^verbatim>\<open>glm::reflect(I, N)\<close> is \<^verbatim>\<open>I - N * dot(N, I) * 2\<close>.\<close>

definition reflect :: "vec3 \<Rightarrow> vec3 \<Rightarrow> vec3" where
  "reflect i n = vsub i (vscaler (vscaler n (dot n i)) (Num 2))"

text \<open>\<^verbatim>\<open>glm::mix(x, y, a)\<close> is \<^verbatim>\<open>x * (1 - a) + y * a\<close>.\<close>

definition mix3 :: "vec3 \<Rightarrow> vec3 \<Rightarrow> cfloat \<Rightarrow> vec3" where
  "mix3 u v a = vadd (vscaler u (fsub (Num 1) a)) (vscaler v a)"

definition v4add :: "vec4 \<Rightarrow> vec4 \<Rightarrow> vec4" where
  "v4add u v =
     Vec4 (fadd (cx u) (cx v)) (fadd (cy u) (cy v)) (fadd (cz u) (cz v)) (fadd (ca u) (ca v))"

definition v4scale :: "cfloat \<Rightarrow> vec4 \<Rightarrow> vec4" where
  "v4scale s v = Vec4 (fmul s (cx v)) (fmul s (cy v)) (fmul s (cz v)) (fmul s (ca v))"

definition v4scaler :: "vec4 \<Rightarrow> cfloat \<Rightarrow> vec4" where
  "v4scaler v s = Vec4 (fmul (cx v) s) (fmul (cy v) s) (fmul (cz v) s) (fmul (ca v) s)"

definition mix4 :: "vec4 \<Rightarrow> vec4 \<Rightarrow> cfloat \<Rightarrow> vec4" where
  "mix4 u v a = v4add (v4scaler u (fsub (Num 1) a)) (v4scaler v a)"

text \<open>\<^verbatim>\<open>glm::vec3(v4)\<close> drops the fourth component; \<^verbatim>\<open>glm::vec4(v3, w)\<close> appends one.\<close>

definition vec3_of :: "vec4 \<Rightarrow> vec3" where
  "vec3_of c = Vec3 (cx c) (cy c) (cz c)"

definition vec4_of :: "vec3 \<Rightarrow> cfloat \<Rightarrow> vec4" where
  "vec4_of v w = Vec4 (vx v) (vy v) (vz v) w"

text \<open>
  \<^verbatim>\<open>glm::smoothstep(edge0, edge1, x)\<close>: \<^verbatim>\<open>t = clamp((x - edge0) / (edge1 - edge0), 0, 1)\<close>,
  then \<^verbatim>\<open>t * t * (3 - 2 * t)\<close>; \<^verbatim>\<open>glm::clamp(x, lo, hi)\<close> is \<^verbatim>\<open>min(max(x, lo), hi)\<close>
  with \<^verbatim>\<open>glm::max(x, y) = (x < y) ? y : x\<close> and \<^verbatim>\<open>glm::min(x, y) = (y < x) ? y : x\<close>.
\<close>

definition glm_clamp :: "cfloat \<Rightarrow> cfloat \<Rightarrow> cfloat \<Rightarrow> cfloat" where
  "glm_clamp x lo hi = std_min (std_max x lo) hi"

definition glm_smoothstep :: "cfloat \<Rightarrow> cfloat \<Rightarrow> cfloat \<Rightarrow> cfloat" where
  "glm_smoothstep edge0 edge1 x =
     (let t = glm_clamp (fdiv (fsub x edge0) (fsub edge1 edge0)) (Num 0) (Num 1)
      in fmul (fmul t t) (fsub (Num 3) (fmul (Num 2) t)))"

section \<open>Data model\<close>

text \<open>
  \<^verbatim>\<open>Ray\<close> and \<^verbatim>\<open>Bounds\<close> as \<^verbatim>\<open>renderer.cpp\<close> uses them: a ray has an origin, a
  direction and the interval \<^verbatim>\<open>[tmin, tmax]\<close>; \<^verbatim>\<open>bounds.lowerUpper[i]\<close> is the lower
  corner for index \<^verbatim>\<open>0\<close> (\<^verbatim>\<open>false\<close>) and the upper corner for index \<^verbatim>\<open>1\<close> (\<^verbatim>\<open>true\<close>).
\<close>

record Ray =
  origin :: vec3
  direction :: vec3
  tmin :: cfloat
  tmax :: cfloat

record Bounds =
  lower :: vec3
  upper :: vec3

definition lowerUpper :: "Bounds \<Rightarrow> bool \<Rightarrow> vec3" where
  "lowerUpper b i = (if i then upper b else lower b)"

text \<open>
  The volume, the gradient volume and the camera are external collaborators; the
  renderer only calls the queries below, which the model takes as fields of a record.
\<close>

record GradientVoxel =
  dir :: vec3
  magnitude :: cfloat

record Volume =
  getSampleInterpolate :: "vec3 \<Rightarrow> cfloat"
  maximum :: cfloat

record GradientVolume =
  getGradientInterpolate :: "vec3 \<Rightarrow> GradientVoxel"
  minMagnitude :: cfloat
  maxMagnitude :: cfloat

record RayTraceCamera =
  position :: vec3
  forward :: vec3

datatype RenderMode =
  RenderSlicer | RenderMIP | RenderIso | RenderComposite | RenderTF2D | RenderMIDA
| RenderCombined

text \<open>
  \<^verbatim>\<open>RenderConfig\<close> of \<^verbatim>\<open>render_config.h\<close>. The colour map is a
  \<^verbatim>\<open>std::array<glm::vec4, 256>\<close>: a function of the index, of fixed size 256.
\<close>

record RenderConfig =
  renderMode :: RenderMode
  renderResolution :: "int \<times> int"
  volumeShading :: bool
  smoothstep :: bool
  isoValue :: cfloat
  gamma :: cfloat
  ka :: cfloat
  kd :: cfloat
  ks :: cfloat
  alpha :: cfloat
  gl :: cfloat
  gh :: cfloat
  tfColorMap :: "nat \<Rightarrow> vec4"
  tfColorMapIndexStart :: cfloat
  tfColorMapIndexRange :: cfloat
  TF2DIntensity :: cfloat
  TF2DRadius :: cfloat
  TF2DColor :: vec4

definition tfColorMap_size :: nat where
  "tfColorMap_size = 256"

section \<open>Transfer functions\<close>

text \<open>
  \<^verbatim>\<open>Renderer::getTFValue\<close>. \<open>getTFIndex\<close> is the local \<^verbatim>\<open>i\<close>:
  \<^verbatim>\<open>std::min(static_cast<size_t>(range01 * 256.0f), size_t(255))\<close>. There is no lower
  clamp and no test of the range; the result is \<open>None\<close> where the conversion to
  \<^verbatim>\<open>size_t\<close> is undefined.
\<close>

definition range01 :: "RenderConfig \<Rightarrow> cfloat \<Rightarrow> cfloat" where
  "range01 cfg val = fdiv (fsub val (tfColorMapIndexStart cfg)) (tfColorMapIndexRange cfg)"

definition getTFIndex :: "RenderConfig \<Rightarrow> cfloat \<Rightarrow> nat option" where
  "getTFIndex cfg val =
     map_option (\<lambda>n. min n (tfColorMap_size - 1))
       (size_t_of_float (fmul (range01 cfg val) (Num (real tfColorMap_size))))"

definition getTFValue :: "RenderConfig \<Rightarrow> cfloat \<Rightarrow> vec4 option" where
  "getTFValue cfg val = map_option (tfColorMap cfg) (getTFIndex cfg val)"

text \<open>
  \<^verbatim>\<open>Renderer::getTF2DOpacity\<close>. What this function returns on the edges of the triangle
  is decided by how its sums, products and quotients round, so here the rounding is
  explicit: every arithmetic operation is the exact operation followed by \<open>rnd\<close>, the
  rounding of a real number to a float, which may overflow to an infinity. Comparisons
  and \<^verbatim>\<open>std::abs\<close> are exact. The statements about this function hold for every \<open>rnd\<close>
  that is a rounding in the sense of \<open>isRounding\<close>: it leaves 0 and 1 as they are,
  commutes with negation, leaves its own results as they are and never yields NaN.
  Round-to-nearest-even of IEEE 754 binary32 is such a function.
\<close>

definition rounded :: "(real \<Rightarrow> cfloat) \<Rightarrow> cfloat \<Rightarrow> cfloat" where
  "rounded rnd a = (case a of Num r \<Rightarrow> rnd r | _ \<Rightarrow> a)"

definition radd :: "(real \<Rightarrow> cfloat) \<Rightarrow> cfloat \<Rightarrow> cfloat \<Rightarrow> cfloat" where
  "radd rnd a b = rounded rnd (fadd a b)"

definition rsub :: "(real \<Rightarrow> cfloat) \<Rightarrow> cfloat \<Rightarrow> cfloat \<Rightarrow> cfloat" where
  "rsub rnd a b = rounded rnd (fsub a b)"

definition rmul :: "(real \<Rightarrow> cfloat) \<Rightarrow> cfloat \<Rightarrow> cfloat \<Rightarrow> cfloat" where
  "rmul rnd a b = rounded rnd (fmul a b)"

definition rdiv :: "(real \<Rightarrow> cfloat) \<Rightarrow> cfloat \<Rightarrow> cfloat \<Rightarrow> cfloat" where
  "rdiv rnd a b = rounded rnd (fdiv a b)"

definition isRounding :: "(real \<Rightarrow> cfloat) \<Rightarrow> bool" where
  "isRounding rnd =
     (rnd 0 = Num 0 \<and> rnd 1 = Num 1 \<and> (\<forall>x. rnd (- x) = fneg (rnd x))
      \<and> (\<forall>x y. rnd x = Num y \<longrightarrow> rnd y = Num y) \<and> (\<forall>x. rnd x \<noteq> NaN))"

definition getTF2DOpacity ::
  "(real \<Rightarrow> cfloat) \<Rightarrow> RenderConfig \<Rightarrow> GradientVolume \<Rightarrow> cfloat \<Rightarrow> cfloat \<Rightarrow> cfloat" where
  "getTF2DOpacity rnd cfg gv intensity gradientMagnitude =
     (let apexIntensity = TF2DIntensity cfg;
          apexGradientMagnitude = minMagnitude gv;
          baseIntensity1 = rsub rnd apexIntensity (TF2DRadius cfg);
          baseIntensity2 = radd rnd apexIntensity (TF2DRadius cfg);
          baseGradientMagnitude = maxMagnitude gv;
          m1 = rdiv rnd (rsub rnd apexGradientMagnitude baseGradientMagnitude)
                 (rsub rnd apexIntensity baseIntensity1);
          q1 = rsub rnd apexGradientMagnitude (rmul rnd m1 apexIntensity);
          m2 = rdiv rnd (rsub rnd apexGradientMagnitude baseGradientMagnitude)
                 (rsub rnd apexIntensity baseIntensity2);
          q2 = rsub rnd apexGradientMagnitude (rmul rnd m2 apexIntensity)
      in if fgt gradientMagnitude (radd rnd (rmul rnd m1 intensity) q1)
            \<and> fgt gradientMagnitude (radd rnd (rmul rnd m2 intensity) q2)
            \<and> flt gradientMagnitude baseGradientMagnitude
            \<and> fgt intensity baseIntensity1 \<and> flt intensity baseIntensity2
         then
           (let projection =
                  (if flt intensity apexIntensity
                   then rdiv rnd (rsub rnd gradientMagnitude q1) m1
                   else rdiv rnd (rsub rnd gradientMagnitude q2) m2);
                distancefromApex = fabs (rsub rnd projection apexIntensity)
            in rsub rnd (Num 1)
                 (rdiv rnd (fabs (rsub rnd intensity apexIntensity)) distancefromApex))
         else Num 0)"

section \<open>Ray/box intersection\<close>

text \<open>
  \<^verbatim>\<open>Renderer::instersectRayVolumeBounds\<close> takes the ray by reference; the model
  returns the flag together with the ray as the call leaves it.
\<close>

definition instersectRayVolumeBounds :: "Ray \<Rightarrow> Bounds \<Rightarrow> bool \<times> Ray" where
  "instersectRayVolumeBounds ray bounds =
     (let invDir = Vec3 (fdiv (Num 1) (vx (direction ray))) (fdiv (Num 1) (vy (direction ray)))
                     (fdiv (Num 1) (vz (direction ray)));
          sign0 = flt (vx invDir) (Num 0);
          sign1 = flt (vy invDir) (Num 0);
          sign2 = flt (vz invDir) (Num 0);
          tmin1 = fmul (fsub (vx (lowerUpper bounds sign0)) (vx (origin ray))) (vx invDir);
          tmax1 = fmul (fsub (vx (lowerUpper bounds (\<not> sign0))) (vx (origin ray))) (vx invDir);
          tymin = fmul (fsub (vy (lowerUpper bounds sign1)) (vy (origin ray))) (vy invDir);
          tymax = fmul (fsub (vy (lowerUpper bounds (\<not> sign1))) (vy (origin ray))) (vy invDir)
      in if fgt tmin1 tymax \<or> fgt tymin tmax1 then (False, ray)
         else
           (let tmin2 = std_max tmin1 tymin;
                tmax2 = std_min tmax1 tymax;
                tzmin = fmul (fsub (vz (lowerUpper bounds sign2)) (vz (origin ray))) (vz invDir);
                tzmax = fmul (fsub (vz (lowerUpper bounds (\<not> sign2))) (vz (origin ray)))
                          (vz invDir)
            in if fgt tmin2 tzmax \<or> fgt tzmin tmax2 then (False, ray)
               else (True, ray\<lparr>tmin := std_max tmin2 tzmin, tmax := std_min tmax2 tzmax\<rparr>)))"

section \<open>Bisection\<close>

text \<open>
  \<^verbatim>\<open>Renderer::bisectionAccuracy\<close>. The loop counter runs from \<open>0\<close> while it is below
  \<open>maxIterations\<close>; \<open>a\<close>, \<open>b\<close> and \<open>c\<close> are the locals. \<^verbatim>\<open>c\<close> is declared
  without a value and assigned in the first iteration, which always runs.
\<close>

definition maxIterations :: nat where
  "maxIterations = 30"

definition precision :: cfloat where
  "precision = Num 0.01"

function bisectionLoop ::
  "Volume \<Rightarrow> Ray \<Rightarrow> cfloat \<Rightarrow> nat \<Rightarrow> cfloat \<Rightarrow> cfloat \<Rightarrow> cfloat \<Rightarrow> cfloat" where
  "bisectionLoop vol ray isoVal iteration a b c =
     (if iteration < maxIterations then
        (let c1 = fdiv (fadd a b) (Num 2);
             fc = getSampleInterpolate vol (vadd (origin ray) (vscale c1 (direction ray)))
         in if flt (fabs (fsub fc isoVal)) precision \<or> flt (fabs (fsub b a)) precision then c1
            else if flt fc isoVal then bisectionLoop vol ray isoVal (iteration + 1) c1 b c1
            else bisectionLoop vol ray isoVal (iteration + 1) a c1 c1)
      else c)"
  by pat_completeness auto
termination
  by (relation "measure (\<lambda>(vol, ray, isoVal, iteration, a, b, c). maxIterations - iteration)")
    auto

definition bisectionAccuracy :: "Volume \<Rightarrow> Ray \<Rightarrow> cfloat \<Rightarrow> cfloat \<Rightarrow> cfloat \<Rightarrow> cfloat" where
  "bisectionAccuracy vol ray t0 t1 isoVal = bisectionLoop vol ray isoVal 0 t0 t1 (Num 0)"

declare bisectionLoop.simps [simp del]

text \<open>
  The search as the specification words it, to compare the loop with: the midpoint of
  an interval, the scalar sampled on the ray at a parameter, the test that ends the
  search (the sample at the midpoint is within the tolerance of the isovalue, or the
  interval is narrower than the tolerance), the half the search goes on in, and the
  interval reached after \<open>k\<close> halvings.
\<close>

definition midpoint :: "cfloat \<times> cfloat \<Rightarrow> cfloat" where
  "midpoint ab = fdiv (fadd (fst ab) (snd ab)) (Num 2)"

definition probe :: "Volume \<Rightarrow> Ray \<Rightarrow> cfloat \<Rightarrow> cfloat" where
  "probe vol ray c = getSampleInterpolate vol (vadd (origin ray) (vscale c (direction ray)))"

definition bisectStop :: "Volume \<Rightarrow> Ray \<Rightarrow> cfloat \<Rightarrow> cfloat \<times> cfloat \<Rightarrow> bool" where
  "bisectStop vol ray isoVal ab =
     (flt (fabs (fsub (probe vol ray (midpoint ab)) isoVal)) precision
      \<or> flt (fabs (fsub (snd ab) (fst ab))) precision)"

definition bisectNarrow ::
  "Volume \<Rightarrow> Ray \<Rightarrow> cfloat \<Rightarrow> cfloat \<times> cfloat \<Rightarrow> cfloat \<times> cfloat" where
  "bisectNarrow vol ray isoVal ab =
     (if flt (probe vol ray (midpoint ab)) isoVal then (midpoint ab, snd ab)
      else (fst ab, midpoint ab))"

definition bisectInterval ::
  "Volume \<Rightarrow> Ray \<Rightarrow> cfloat \<Rightarrow> cfloat \<Rightarrow> cfloat \<Rightarrow> nat \<Rightarrow> cfloat \<times> cfloat" where
  "bisectInterval vol ray isoVal t0 t1 k = (bisectNarrow vol ray isoVal ^^ k) (t0, t1)"

section \<open>Phong shading\<close>

text \<open>\<^verbatim>\<open>Renderer::computePhongShading\<close>.\<close>

definition vany_isnan :: "vec3 \<Rightarrow> bool" where
  "vany_isnan v = (fisnan (vx v) \<or> fisnan (vy v) \<or> fisnan (vz v))"

definition computePhongShading ::
  "vec3 \<Rightarrow> GradientVoxel \<Rightarrow> vec3 \<Rightarrow> vec3 \<Rightarrow> cfloat \<Rightarrow> cfloat \<Rightarrow> cfloat \<Rightarrow> cfloat \<Rightarrow> vec3" where
  "computePhongShading color gradient L V k_a k_d k_s k_alpha =
     (let ambient = vscale k_a color;
          cos_theta = dot (normalize (dir gradient)) L;
          diffuse0 = vscaler (vscale k_d color) (fabs cos_theta);
          diffuse = (if vany_isnan diffuse0 then vsplat (Num 0) else diffuse0);
          cos_phi = dot (normalize (reflect L (dir gradient))) V;
          specular = vscaler (vscale k_s (vsplat (Num 1))) (pow_abs cos_phi k_alpha)
      in vadd (vadd ambient diffuse) specular)"

section \<open>The sampling loop\<close>

text \<open>
  Every tracer runs the same loop header,
  \<^verbatim>\<open>for (float t = ray.tmin; t <= ray.tmax; t += sampleStep, samplePos += increment)\<close>,
  around its own body. \<open>sampleLoop\<close> is that header: the body reads \<^verbatim>\<open>t\<close> and
  \<^verbatim>\<open>samplePos\<close>, updates the tracer's locals and says whether the loop goes on
  (\<open>Continue\<close>) or is left by \<^verbatim>\<open>break\<close> or \<^verbatim>\<open>return\<close> (\<open>Break\<close>). The loop need not
  end (a step that is not positive, an infinite \<^verbatim>\<open>tmax\<close>), so it is a partial function:
  \<open>None\<close> says that the C++ loop has no defined result, because it runs forever or
  because its body has undefined behaviour.
\<close>

datatype 's ctl = Break 's | Continue 's

fun is_Continue :: "'s ctl \<Rightarrow> bool" where
  "is_Continue (Continue s) = True"
| "is_Continue (Break s) = False"

fun ctl_state :: "'s ctl \<Rightarrow> 's" where
  "ctl_state (Continue s) = s"
| "ctl_state (Break s) = s"

partial_function (option) sampleLoop ::
  "(cfloat \<Rightarrow> vec3 \<Rightarrow> 's \<Rightarrow> 's ctl option) \<Rightarrow> cfloat \<Rightarrow> cfloat \<Rightarrow> vec3 \<Rightarrow>
   cfloat \<Rightarrow> vec3 \<Rightarrow> 's \<Rightarrow> 's option" where
  "sampleLoop body tEnd sampleStep increment t samplePos s =
     (if fle t tEnd then
        (case body t samplePos s of
           None \<Rightarrow> None
         | Some r \<Rightarrow>
             if is_Continue r then
               sampleLoop body tEnd sampleStep increment (fadd t sampleStep)
                 (vadd samplePos increment) (ctl_state r)
             else Some (ctl_state r))
      else Some s)"

text \<open>
  The locals after each of the first \<open>n\<close> iterations of the same loop, in order: the
  trace that the statements about ``every iteration'' speak of.
\<close>

fun loopStates ::
  "(cfloat \<Rightarrow> vec3 \<Rightarrow> 's \<Rightarrow> 's ctl option) \<Rightarrow> cfloat \<Rightarrow> cfloat \<Rightarrow> vec3 \<Rightarrow>
   nat \<Rightarrow> cfloat \<Rightarrow> vec3 \<Rightarrow> 's \<Rightarrow> 's list" where
  "loopStates body tEnd sampleStep increment 0 t samplePos s = []"
| "loopStates body tEnd sampleStep increment (Suc n) t samplePos s =
     (if fle t tEnd then
        (case body t samplePos s of
           None \<Rightarrow> []
         | Some r \<Rightarrow>
             if is_Continue r then
               ctl_state r # loopStates body tEnd sampleStep increment n (fadd t sampleStep)
                 (vadd samplePos increment) (ctl_state r)
             else [ctl_state r])
      else [])"

section \<open>Tracers\<close>

text \<open>
  Every shading block computes its light vector by the same expression,
  \<^verbatim>\<open>glm::vec3 L = glm::normalize(samplePos - ray.origin)\<close> (lines 213, 288, 404 and 521;
  the composite and the isosurface tracer name the position \<^verbatim>\<open>precisePos\<close>).
\<close>

definition lightVector :: "Ray \<Rightarrow> vec3 \<Rightarrow> vec3" where
  "lightVector ray samplePos = normalize (vsub samplePos (origin ray))"

subsection \<open>MIDA\<close>

text \<open>
  \<^verbatim>\<open>Renderer::traceRayMIDA\<close>. The locals carried round the loop are
  \<^verbatim>\<open>(maxVal, accumulatedOpacity, accumulatedColor)\<close>. \<open>finalColorMIDA\<close> is the block that
  sets \<^verbatim>\<open>finalColor\<close> (lines 206 to 230).
\<close>

definition finalColorMIDA ::
  "RenderConfig \<Rightarrow> GradientVolume \<Rightarrow> RayTraceCamera \<Rightarrow> Ray \<Rightarrow> vec3 \<Rightarrow> vec3 \<Rightarrow> vec3" where
  "finalColorMIDA cfg gv cam ray samplePos tfColor =
     (if volumeShading cfg then
        (let gradient = getGradientInterpolate gv samplePos;
             V = normalize (vsub (position cam) samplePos);
             L = lightVector ray samplePos;
             phongShading =
               computePhongShading tfColor gradient L V (ka cfg) (kd cfg) (ks cfg) (alpha cfg)
         in if smoothstep cfg then
              (let gradientMagnitude = magnitude gradient;
                   weight = glm_smoothstep (fmul (gl cfg) (maxMagnitude gv))
                              (fmul (gh cfg) (maxMagnitude gv)) gradientMagnitude
               in mix3 tfColor phongShading weight)
            else phongShading)
      else tfColor)"

definition midaBody ::
  "RenderConfig \<Rightarrow> Volume \<Rightarrow> GradientVolume \<Rightarrow> RayTraceCamera \<Rightarrow> Ray \<Rightarrow> cfloat \<Rightarrow> vec3 \<Rightarrow>
   cfloat \<times> cfloat \<times> vec4 \<Rightarrow> (cfloat \<times> cfloat \<times> vec4) ctl option" where
  "midaBody cfg vol gv cam ray t samplePos st =
     (case st of (maxVal, accumulatedOpacity, accumulatedColor) \<Rightarrow>
       (let val = getSampleInterpolate vol samplePos;
            normalizedVal = fdiv val (maximum vol);
            normalizedMaxVal = fdiv maxVal (maximum vol)
        in case getTFValue cfg val of
             None \<Rightarrow> None
           | Some tfValue \<Rightarrow>
              (let tfColor = vec3_of tfValue;
                   tfOpacity = ca tfValue;
                   finalColor = finalColorMIDA cfg gv cam ray samplePos tfColor;
                   delta = (if fgt val maxVal then fsub normalizedVal normalizedMaxVal else Num 0);
                   beta = fsub (Num 1) delta
               in Some (Continue
                    (std_max val maxVal,
                     fadd (fmul beta accumulatedOpacity)
                       (fmul (fsub (Num 1) (fmul beta accumulatedOpacity)) tfOpacity),
                     v4add (v4scale beta accumulatedColor)
                       (v4scale (fmul (fsub (Num 1) (fmul beta accumulatedOpacity)) tfOpacity)
                          (vec4_of finalColor (Num 1))))))))"

definition traceRayMIDA ::
  "RenderConfig \<Rightarrow> Volume \<Rightarrow> GradientVolume \<Rightarrow> RayTraceCamera \<Rightarrow> Ray \<Rightarrow> cfloat \<Rightarrow> vec4 option"
  where
  "traceRayMIDA cfg vol gv cam ray sampleStep =
     (let samplePos = vadd (origin ray) (vscale (tmin ray) (direction ray));
          increment = vscale sampleStep (direction ray)
      in map_option (\<lambda>(maxVal, accumulatedOpacity, accumulatedColor). accumulatedColor)
           (sampleLoop (midaBody cfg vol gv cam ray) (tmax ray) sampleStep increment (tmin ray)
              samplePos (Num 0, Num 0, Vec4 (Num 0) (Num 0) (Num 0) (Num 0))))"

subsection \<open>Combined\<close>

text \<open>\<^verbatim>\<open>Renderer::traceRayCombined\<close>; \<open>finalColorCombined\<close> is lines 281 to 305.\<close>

definition finalColorCombined ::
  "RenderConfig \<Rightarrow> GradientVolume \<Rightarrow> RayTraceCamera \<Rightarrow> Ray \<Rightarrow> vec3 \<Rightarrow> vec3 \<Rightarrow> vec3" where
  "finalColorCombined cfg gv cam ray samplePos tfColor =
     (if volumeShading cfg then
        (let gradient = getGradientInterpolate gv samplePos;
             V = normalize (vsub (position cam) samplePos);
             L = lightVector ray samplePos;
             phongShading =
               computePhongShading tfColor gradient L V (ka cfg) (kd cfg) (ks cfg) (alpha cfg)
         in if smoothstep cfg then
              (let gradientMagnitude = magnitude gradient;
                   weight = glm_smoothstep (fmul (gl cfg) (maxMagnitude gv))
                              (fmul (gh cfg) (maxMagnitude gv)) gradientMagnitude
               in mix3 tfColor phongShading weight)
            else phongShading)
      else tfColor)"

definition combinedBody ::
  "RenderConfig \<Rightarrow> Volume \<Rightarrow> GradientVolume \<Rightarrow> RayTraceCamera \<Rightarrow> Ray \<Rightarrow> cfloat \<Rightarrow> vec3 \<Rightarrow>
   cfloat \<times> cfloat \<times> vec4 \<Rightarrow> (cfloat \<times> cfloat \<times> vec4) ctl option" where
  "combinedBody cfg vol gv cam ray t samplePos st =
     (case st of (maxVal, accumulatedOpacity, accumulatedColor) \<Rightarrow>
       (let val = getSampleInterpolate vol samplePos;
            normalizedVal = fdiv val (maximum vol);
            normalizedMaxVal = fdiv maxVal (maximum vol)
        in case getTFValue cfg val of
             None \<Rightarrow> None
           | Some tfValue \<Rightarrow>
              (let tfColor = vec3_of tfValue;
                   tfOpacity = ca tfValue;
                   finalColor = finalColorCombined cfg gv cam ray samplePos tfColor;
                   delta = (if fgt val maxVal then fsub normalizedVal normalizedMaxVal else Num 0);
                   beta = (if fle (gamma cfg) (Num 0)
                           then fsub (Num 1) (fmul delta (fadd (Num 1) (gamma cfg)))
                           else fsub (Num 1) delta)
               in Some (Continue
                    (std_max val maxVal,
                     fadd (fmul beta accumulatedOpacity)
                       (fmul (fsub (Num 1) (fmul beta accumulatedOpacity)) tfOpacity),
                     v4add (v4scale beta accumulatedColor)
                       (v4scale (fmul (fsub (Num 1) (fmul beta accumulatedOpacity)) tfOpacity)
                          (vec4_of finalColor (Num 1))))))))"

definition vdivs :: "vec3 \<Rightarrow> cfloat \<Rightarrow> vec3" where
  "vdivs v s = Vec3 (fdiv (vx v) s) (fdiv (vy v) s) (fdiv (vz v) s)"

definition traceRayCombined ::
  "RenderConfig \<Rightarrow> Volume \<Rightarrow> GradientVolume \<Rightarrow> RayTraceCamera \<Rightarrow> Ray \<Rightarrow> cfloat \<Rightarrow> vec4 option"
  where
  "traceRayCombined cfg vol gv cam ray sampleStep =
     (let samplePos = vadd (origin ray) (vscale (tmin ray) (direction ray));
          increment = vscale sampleStep (direction ray)
      in map_option
           (\<lambda>(maxVal, accumulatedOpacity, accumulatedColor).
              if fle (gamma cfg) (Num 0) then accumulatedColor
              else mix4 accumulatedColor
                     (vec4_of (vdivs (vsplat maxVal) (maximum vol)) (Num 1)) (gamma cfg))
           (sampleLoop (combinedBody cfg vol gv cam ray) (tmax ray) sampleStep increment
              (tmin ray) samplePos (Num 0, Num 0, Vec4 (Num 0) (Num 0) (Num 0) (Num 0))))"

subsection \<open>Composite\<close>

text \<open>
  \<^verbatim>\<open>Renderer::traceRayComposite\<close>. The locals carried round the loop are
  \<^verbatim>\<open>(accumulatedOpacity, accumulatedColor)\<close>; \<open>shadedColorComposite\<close> is the block under
  \<^verbatim>\<open>if (m_config.volumeShading)\<close> (lines 515 to 524), which recomputes the position from
  \<^verbatim>\<open>t\<close>.
\<close>

definition shadedColorComposite ::
  "RenderConfig \<Rightarrow> GradientVolume \<Rightarrow> RayTraceCamera \<Rightarrow> Ray \<Rightarrow> cfloat \<Rightarrow> vec3 \<Rightarrow> vec3" where
  "shadedColorComposite cfg gv cam ray t tfColor =
     (if volumeShading cfg then
        (let precisePos = vadd (origin ray) (vscale t (direction ray));
             gradient = getGradientInterpolate gv precisePos;
             V = normalize (vsub (position cam) precisePos);
             L = lightVector ray precisePos
         in computePhongShading tfColor gradient L V (ka cfg) (kd cfg) (ks cfg) (alpha cfg))
      else tfColor)"

definition compositeBody ::
  "RenderConfig \<Rightarrow> Volume \<Rightarrow> GradientVolume \<Rightarrow> RayTraceCamera \<Rightarrow> Ray \<Rightarrow> cfloat \<Rightarrow> vec3 \<Rightarrow>
   cfloat \<times> vec4 \<Rightarrow> (cfloat \<times> vec4) ctl option" where
  "compositeBody cfg vol gv cam ray t samplePos st =
     (case st of (accumulatedOpacity, accumulatedColor) \<Rightarrow>
       (let val = getSampleInterpolate vol samplePos
        in case getTFValue cfg val of
             None \<Rightarrow> None
           | Some tfValue \<Rightarrow>
              (let tfColor = shadedColorComposite cfg gv cam ray t (vec3_of tfValue);
                   tfOpacity = ca tfValue;
                   accumulatedColor1 =
                     v4add accumulatedColor
                       (v4scale (fmul (fsub (Num 1) accumulatedOpacity) tfOpacity)
                          (vec4_of tfColor (Num 1)));
                   accumulatedOpacity1 =
                     fadd accumulatedOpacity (fmul (fsub (Num 1) accumulatedOpacity) tfOpacity)
               in if fge accumulatedOpacity1 (Num 1)
                  then Some (Break (accumulatedOpacity1, accumulatedColor1))
                  else Some (Continue (accumulatedOpacity1, accumulatedColor1)))))"

definition traceRayComposite ::
  "RenderConfig \<Rightarrow> Volume \<Rightarrow> GradientVolume \<Rightarrow> RayTraceCamera \<Rightarrow> Ray \<Rightarrow> cfloat \<Rightarrow> vec4 option"
  where
  "traceRayComposite cfg vol gv cam ray sampleStep =
     (let samplePos = vadd (origin ray) (vscale (tmin ray) (direction ray));
          increment = vscale sampleStep (direction ray)
      in map_option (\<lambda>(accumulatedOpacity, accumulatedColor). accumulatedColor)
           (sampleLoop (compositeBody cfg vol gv cam ray) (tmax ray) sampleStep increment
              (tmin ray) samplePos (Num 0, Vec4 (Num 0) (Num 0) (Num 0) (Num 0))))"

subsection \<open>Isosurface\<close>

text \<open>
  \<^verbatim>\<open>Renderer::traceRayISO\<close>. Without shading the loop carries \<^verbatim>\<open>res\<close> and the result is
  \<^verbatim>\<open>glm::vec4(color * res, 1.0f)\<close>; with shading the loop returns from inside at the
  first hit, so it carries the colour to return, if any, and the result after the loop
  is \<^verbatim>\<open>glm::vec4(glm::vec3(0.0f), 1.0f)\<close>.
\<close>

definition isoColor :: vec3 where
  "isoColor = Vec3 (Num 0.8) (Num 0.8) (Num 0)"

definition isoBody :: "RenderConfig \<Rightarrow> Volume \<Rightarrow> cfloat \<Rightarrow> vec3 \<Rightarrow> cfloat \<Rightarrow> cfloat ctl option" where
  "isoBody cfg vol t samplePos res =
     (let val = getSampleInterpolate vol samplePos
      in if fgt val (isoValue cfg) then Some (Break (Num 1)) else Some (Continue res))"

definition isoShadedBody ::
  "RenderConfig \<Rightarrow> Volume \<Rightarrow> GradientVolume \<Rightarrow> RayTraceCamera \<Rightarrow> Ray \<Rightarrow> cfloat \<Rightarrow> vec3 \<Rightarrow>
   cfloat \<Rightarrow> vec3 \<Rightarrow> vec4 option \<Rightarrow> (vec4 option) ctl option" where
  "isoShadedBody cfg vol gv cam ray sampleStep increment t samplePos found =
     (let val1 = getSampleInterpolate vol samplePos;
          val2 = getSampleInterpolate vol (vadd samplePos increment)
      in if fgt val1 (isoValue cfg) \<or> fgt val2 (isoValue cfg) then
           (let preciseT = bisectionAccuracy vol ray t (fadd t sampleStep) (isoValue cfg);
                precisePos = vadd (origin ray) (vscale preciseT (direction ray));
                gradient = getGradientInterpolate gv precisePos;
                V = normalize (vsub (position cam) precisePos);
                L = lightVector ray precisePos;
                phongShading =
                  computePhongShading isoColor gradient L V (ka cfg) (kd cfg) (ks cfg) (alpha cfg)
            in Some (Break (Some (vec4_of phongShading (Num 1)))))
         else Some (Continue found))"

definition traceRayISO ::
  "RenderConfig \<Rightarrow> Volume \<Rightarrow> GradientVolume \<Rightarrow> RayTraceCamera \<Rightarrow> Ray \<Rightarrow> cfloat \<Rightarrow> vec4 option"
  where
  "traceRayISO cfg vol gv cam ray sampleStep =
     (let samplePos = vadd (origin ray) (vscale (tmin ray) (direction ray));
          increment = vscale sampleStep (direction ray)
      in if \<not> volumeShading cfg then
           map_option (\<lambda>res. vec4_of (vscaler isoColor res) (Num 1))
             (sampleLoop (isoBody cfg vol) (tmax ray) sampleStep increment (tmin ray) samplePos
                (Num 0))
         else
           map_option
             (\<lambda>found. case found of
                  Some c \<Rightarrow> c
                | None \<Rightarrow> vec4_of (vsplat (Num 0)) (Num 1))
             (sampleLoop (isoShadedBody cfg vol gv cam ray sampleStep increment) (tmax ray)
                sampleStep increment (tmin ray) samplePos None))"

section \<open>Traces and predicates of the statements\<close>

text \<open>
  The position of sample number \<open>k\<close> of a tracer: the start
  \<^verbatim>\<open>ray.origin + ray.tmin * ray.direction\<close> after \<open>k\<close> additions of
  \<^verbatim>\<open>sampleStep * ray.direction\<close>.
\<close>

definition samplePosition :: "Ray \<Rightarrow> cfloat \<Rightarrow> nat \<Rightarrow> vec3" where
  "samplePosition ray sampleStep k =
     ((\<lambda>p. vadd p (vscale sampleStep (direction ray))) ^^ k)
       (vadd (origin ray) (vscale (tmin ray) (direction ray)))"

text \<open>
  The accumulated opacity after each of the first \<open>n\<close> iterations of the composite and
  of the MIDA tracer, from the values the tracers start their loops with.
\<close>

definition compositeOpacities ::
  "RenderConfig \<Rightarrow> Volume \<Rightarrow> GradientVolume \<Rightarrow> RayTraceCamera \<Rightarrow> Ray \<Rightarrow> cfloat \<Rightarrow> nat \<Rightarrow> cfloat list"
  where
  "compositeOpacities cfg vol gv cam ray sampleStep n =
     (let samplePos = vadd (origin ray) (vscale (tmin ray) (direction ray));
          increment = vscale sampleStep (direction ray)
      in map fst
           (loopStates (compositeBody cfg vol gv cam ray) (tmax ray) sampleStep increment n
              (tmin ray) samplePos (Num 0, Vec4 (Num 0) (Num 0) (Num 0) (Num 0))))"

definition midaOpacities ::
  "RenderConfig \<Rightarrow> Volume \<Rightarrow> GradientVolume \<Rightarrow> RayTraceCamera \<Rightarrow> Ray \<Rightarrow> cfloat \<Rightarrow> nat \<Rightarrow> cfloat list"
  where
  "midaOpacities cfg vol gv cam ray sampleStep n =
     (let samplePos = vadd (origin ray) (vscale (tmin ray) (direction ray));
          increment = vscale sampleStep (direction ray)
      in map (\<lambda>(maxVal, accumulatedOpacity, accumulatedColor). accumulatedOpacity)
           (loopStates (midaBody cfg vol gv cam ray) (tmax ray) sampleStep increment n
              (tmin ray) samplePos (Num 0, Num 0, Vec4 (Num 0) (Num 0) (Num 0) (Num 0))))"

text \<open>
  Every entry of the colour map has an opacity in \<open>[0, 1]\<close>; every sample of the volume
  is finite and at most the volume's maximum.
\<close>

definition tfOpacitiesInUnit :: "RenderConfig \<Rightarrow> bool" where
  "tfOpacitiesInUnit cfg =
     (\<forall>i<tfColorMap_size.
        fle (Num 0) (ca (tfColorMap cfg i)) \<and> fle (ca (tfColorMap cfg i)) (Num 1))"

definition samplesBelowMaximum :: "Volume \<Rightarrow> bool" where
  "samplesBelowMaximum vol =
     (\<exists>M. maximum vol = Num M \<and> (\<forall>p. \<exists>v. getSampleInterpolate vol p = Num v \<and> v \<le> M))"

text \<open>
  The loop parameter of sample number \<open>k\<close>: \<^verbatim>\<open>ray.tmin\<close> after \<open>k\<close> additions of
  \<^verbatim>\<open>sampleStep\<close>, by the loop's own addition. A sample exceeds the isovalue when the test
  \<^verbatim>\<open>val > m_config.isoValue\<close> of the isosurface tracer holds at its position.
\<close>

definition sampleParam :: "Ray \<Rightarrow> cfloat \<Rightarrow> nat \<Rightarrow> cfloat" where
  "sampleParam ray sampleStep k = ((\<lambda>t. fadd t sampleStep) ^^ k) (tmin ray)"

definition exceedsIso :: "RenderConfig \<Rightarrow> Volume \<Rightarrow> vec3 \<Rightarrow> bool" where
  "exceedsIso cfg vol samplePos = fgt (getSampleInterpolate vol samplePos) (isoValue cfg)"

text \<open>
  The shading blocks of the composite and of the MIDA tracer with the function they
  call left open: \<open>shade\<close> stands where the source calls \<^verbatim>\<open>computePhongShading\<close>, and
  everything else is the block as it is. What the block passes to the shading function
  is what every \<open>shade\<close> receives; \<open>passLight\<close> is the shading function that returns
  the light vector it was given.
\<close>

type_synonym shading =
  "vec3 \<Rightarrow> GradientVoxel \<Rightarrow> vec3 \<Rightarrow> vec3 \<Rightarrow> cfloat \<Rightarrow> cfloat \<Rightarrow> cfloat \<Rightarrow> cfloat \<Rightarrow> vec3"

definition shadedColorCompositeWith ::
  "shading \<Rightarrow> RenderConfig \<Rightarrow> GradientVolume \<Rightarrow> RayTraceCamera \<Rightarrow> Ray \<Rightarrow> cfloat \<Rightarrow> vec3 \<Rightarrow> vec3"
  where
  "shadedColorCompositeWith shade cfg gv cam ray t tfColor =
     (if volumeShading cfg then
        (let precisePos = vadd (origin ray) (vscale t (direction ray));
             gradient = getGradientInterpolate gv precisePos;
             V = normalize (vsub (position cam) precisePos);
             L = lightVector ray precisePos
         in shade tfColor gradient L V (ka cfg) (kd cfg) (ks cfg) (alpha cfg))
      else tfColor)"

definition finalColorMIDAWith ::
  "shading \<Rightarrow> RenderConfig \<Rightarrow> GradientVolume \<Rightarrow> RayTraceCamera \<Rightarrow> Ray \<Rightarrow> vec3 \<Rightarrow> vec3 \<Rightarrow> vec3"
  where
  "finalColorMIDAWith shade cfg gv cam ray samplePos tfColor =
     (if volumeShading cfg then
        (let gradient = getGradientInterpolate gv samplePos;
             V = normalize (vsub (position cam) samplePos);
             L = lightVector ray samplePos;
             phongShading = shade tfColor gradient L V (ka cfg) (kd cfg) (ks cfg) (alpha cfg)
         in if smoothstep cfg then
              (let gradientMagnitude = magnitude gradient;
                   weight = glm_smoothstep (fmul (gl cfg) (maxMagnitude gv))
                              (fmul (gh cfg) (maxMagnitude gv)) gradientMagnitude
               in mix3 tfColor phongShading weight)
            else phongShading)
      else tfColor)"

definition passLight :: shading where
  "passLight color gradient L V k_a k_d k_s k_alpha = L"

text \<open>The opposite vector.\<close>

definition vneg :: "vec3 \<Rightarrow> vec3" where
  "vneg v = Vec3 (fneg (vx v)) (fneg (vy v)) (fneg (vz v))"

section \<open>Example inputs\<close>

text \<open>
  A small scene on which the statements below are evaluated: a two-colour transfer
  function over the domain \<open>[0, 256)\<close>, a volume that is \<open>0\<close> on the plane \<open>x = 0\<close> and
  \<open>255\<close> elsewhere, a box from \<open>(0, 0, 0)\<close> to \<open>(10, 10, 10)\<close>, and a few rays.
\<close>

definition exampleColorMap :: "nat \<Rightarrow> vec4" where
  "exampleColorMap i =
     (if i = 0 then Vec4 (Num 1) (Num 0) (Num 0) (Num 0.5)
      else Vec4 (Num 0) (Num 1) (Num 0) (Num 0.1))"

definition exampleConfig :: RenderConfig where
  "exampleConfig =
     \<lparr>renderMode = RenderMIDA, renderResolution = (2, 2), volumeShading = False,
      smoothstep = False, isoValue = Num 95, gamma = Num 0, ka = Num 0.1, kd = Num 0.7,
      ks = Num 0.2, alpha = Num 100, gl = Num 0.125, gh = Num 0.25,
      tfColorMap = exampleColorMap, tfColorMapIndexStart = Num 0,
      tfColorMapIndexRange = Num 256, TF2DIntensity = Num 100, TF2DRadius = Num 50,
      TF2DColor = Vec4 (Num 1) (Num 1) (Num 1) (Num 1)\<rparr>"

definition exampleVolume :: Volume where
  "exampleVolume =
     \<lparr>getSampleInterpolate = (\<lambda>p. if vx p = Num 0 then Num 0 else Num 255),
      maximum = Num 255\<rparr>"

definition exampleGradientVolume :: GradientVolume where
  "exampleGradientVolume =
     \<lparr>getGradientInterpolate =
        (\<lambda>p. \<lparr>dir = Vec3 (Num 0) (Num 0) (Num 1), magnitude = Num 1\<rparr>),
      minMagnitude = Num 0, maxMagnitude = Num 10\<rparr>"

definition exampleCamera :: RayTraceCamera where
  "exampleCamera =
     \<lparr>position = Vec3 (Num (- 10)) (Num 0) (Num 0), forward = Vec3 (Num 1) (Num 0) (Num 0)\<rparr>"

definition exampleRay :: Ray where
  "exampleRay =
     \<lparr>origin = Vec3 (Num 0) (Num 0) (Num 0), direction = Vec3 (Num 1) (Num 0) (Num 0),
      tmin = Num 0, tmax = Num 1\<rparr>"

definition exampleBounds :: Bounds where
  "exampleBounds =
     \<lparr>lower = Vec3 (Num 0) (Num 0) (Num 0), upper = Vec3 (Num 10) (Num 10) (Num 10)\<rparr>"

definition missRay :: Ray where
  "missRay =
     \<lparr>origin = Vec3 (Num (- 5)) (Num 20) (Num 0), direction = Vec3 (Num 1) (Num 1) (Num 1),
      tmin = Num 3, tmax = Num 4\<rparr>"

text \<open>
  A ray that runs inside the face \<open>x = 0\<close> of the box: its origin lies on that plane and
  the \<open>x\<close> component of its direction is zero.
\<close>

definition grazingRay :: Ray where
  "grazingRay =
     \<lparr>origin = Vec3 (Num 0) (Num 5) (Num (- 5)), direction = Vec3 (Num 0) (Num 0) (Num 1),
      tmin = Num 0, tmax = Num 0\<rparr>"

text \<open>A volume that is \<open>0\<close> everywhere.\<close>

definition darkVolume :: Volume where
  "darkVolume = \<lparr>getSampleInterpolate = (\<lambda>p. Num 0), maximum = Num 255\<rparr>"

text \<open>
  A coarse rounding: a number of magnitude below 8 is kept, a larger one is rounded to
  the nearest integer. Two configurations of the 2D transfer function whose apex has a
  minimum gradient magnitude that is not zero.
\<close>

definition coarseRound :: "real \<Rightarrow> cfloat" where
  "coarseRound x = (if \<bar>x\<bar> < 8 then Num x else Num (sgn x * of_int \<lfloor>\<bar>x\<bar> + 1 / 2\<rfloor>))"

definition steepConfig :: RenderConfig where
  "steepConfig = exampleConfig\<lparr>TF2DIntensity := Num 14, TF2DRadius := Num 4\<rparr>"

definition steepGradientVolume :: GradientVolume where
  "steepGradientVolume = exampleGradientVolume\<lparr>minMagnitude := Num 0.25, maxMagnitude := Num 3.25\<rparr>"

definition narrowConfig :: RenderConfig where
  "narrowConfig = exampleConfig\<lparr>TF2DIntensity := Num 10, TF2DRadius := Num 1\<rparr>"

definition narrowGradientVolume :: GradientVolume where
  "narrowGradientVolume =
     exampleGradientVolume\<lparr>minMagnitude := Num 0.25, maxMagnitude := Num 1.25\<rparr>"

section \<open>The 1D transfer-function lookup\<close>

lemma trunc_zero_nonneg: "0 \<le> r \<Longrightarrow> trunc_zero r = \<lfloor>r\<rfloor>"
  by (simp add: trunc_zero_def)

lemma trunc_zero_small: "- 1 < r \<Longrightarrow> r < 0 \<Longrightarrow> trunc_zero r = 0"
  by (simp add: trunc_zero_def ceiling_eq_iff)

lemma trunc_zero_neg: "r \<le> - 1 \<Longrightarrow> trunc_zero r < 0"
  by (simp add: trunc_zero_def ceiling_less_iff)

text \<open>The conversion is defined exactly on the open interval from \<open>- 1\<close> to \<open>2 ^ 64\<close>.\<close>

lemma size_t_of_float_Num:
  "size_t_of_float (Num x) = (if - 1 < x \<and> x < 2 ^ 64 then Some (nat \<lfloor>x\<rfloor>) else None)"
proof -
  consider "x \<le> - 1" | "- 1 < x" "x < 0" | "0 \<le> x" by linarith
  then show ?thesis
  proof cases
    case 1
    then show ?thesis using trunc_zero_neg[of x] by simp
  next
    case 2
    then have "\<lfloor>x\<rfloor> = - 1" by (simp add: floor_eq_iff)
    with 2 show ?thesis using trunc_zero_small[of x] by simp
  next
    case 3
    have "(\<lfloor>x\<rfloor> < 2 ^ 64) = (x < 2 ^ 64)"
      using floor_less_iff[of x "2 ^ 64"] by simp
    with 3 show ?thesis using trunc_zero_nonneg[of x] by simp
  qed
qed

lemma clamp_floor: "min (nat k) 255 = nat (max 0 (min k 255))"
  by arith

lemma getTFIndex_char:
  "getTFIndex cfg val =
     (case fmul (range01 cfg val) (Num 256) of
        Num x \<Rightarrow> if - 1 < x \<and> x < 2 ^ 64 then Some (nat (max 0 (min \<lfloor>x\<rfloor> 255))) else None
      | _ \<Rightarrow> None)"
proof (cases "fmul (range01 cfg val) (Num 256)")
  case (Num x)
  then show ?thesis
    unfolding getTFIndex_def tfColorMap_size_def
    using clamp_floor[of "\<lfloor>x\<rfloor>"]
    by (simp add: size_t_of_float_Num del: size_t_of_float.simps(1))
qed (simp_all add: getTFIndex_def tfColorMap_size_def)

lemma getTFIndex_bound: "getTFIndex cfg val = Some i \<Longrightarrow> i < tfColorMap_size"
  unfolding getTFIndex_def tfColorMap_size_def by auto

text \<open>
  Claim C3, as the code has it. Write \<open>x\<close> for \<^verbatim>\<open>(value - start) / range * 256\<close>. Where
  \<open>x\<close> is finite with \<open>- 1 < x < 2 ^ 64\<close> the index is \<open>clamp (floor x) 0 255\<close>, and every
  index the lookup computes is below 256, so the array access is in bounds. The function
  has only the upper clamp \<^verbatim>\<open>std::min(..., 255)\<close>: for \<open>x \<le> - 1\<close> (a value one bin or
  more below the domain start), as for an \<open>x\<close> that is not finite, the conversion to
  \<^verbatim>\<open>size_t\<close> is out of range and the lookup has no defined index; it is not index 0.
\<close>

theorem getTFIndex_upper_clamp_only:
  "getTFIndex cfg val =
     (case fmul (range01 cfg val) (Num 256) of
        Num x \<Rightarrow> if - 1 < x \<and> x < 2 ^ 64 then Some (nat (max 0 (min \<lfloor>x\<rfloor> 255))) else None
      | _ \<Rightarrow> None)
   \<and> (\<forall>i. getTFIndex cfg val = Some i \<longrightarrow> i < tfColorMap_size)"
  using getTFIndex_char[of cfg val] getTFIndex_bound[of cfg val] by blast

theorem getTFIndex_upper_clamp_only_witness:
  "getTFIndex exampleConfig (Num 100.5) = Some 100 \<and> (100::nat) < tfColorMap_size"
  using getTFIndex_upper_clamp_only[of exampleConfig "Num 100.5"]
  by (simp add: range01_def exampleConfig_def fsub_def)

text \<open>
  The value \<open>- 10\<close> lies below the domain start \<open>0\<close> of the example configuration, and
  its lookup is not index 0: \<^verbatim>\<open>static_cast<size_t>(-10.0f)\<close> is undefined.
\<close>

theorem getTFIndex_below_start_counterexample:
  "getTFIndex exampleConfig (Num (- 10)) = None
   \<and> getTFIndex exampleConfig (Num (- 10)) \<noteq> Some 0"
  by (simp add: getTFIndex_def range01_def exampleConfig_def fsub_def trunc_zero_def
      tfColorMap_size_def)

lemma fdiv_zero_not_Num: "fdiv a (Num 0) \<noteq> Num x"
  by (cases a) auto

lemma fmul_not_Num: "(\<And>x. a \<noteq> Num x) \<Longrightarrow> fmul a (Num 256) \<noteq> Num y"
  by (cases a) auto

lemma getTFValue_zero_range:
  assumes "tfColorMapIndexRange cfg = Num 0"
  shows "getTFValue cfg val = None"
proof -
  have "\<And>y. fmul (range01 cfg val) (Num 256) \<noteq> Num y"
    unfolding range01_def assms by (rule fmul_not_Num) (rule fdiv_zero_not_Num)
  then have "size_t_of_float (fmul (range01 cfg val) (Num 256)) = None"
    by (cases "fmul (range01 cfg val) (Num 256)") auto
  then show ?thesis by (simp add: getTFValue_def getTFIndex_def tfColorMap_size_def)
qed

text \<open>
  Claim C7, as the code has it. \<^verbatim>\<open>getTFValue\<close> does not test the range. When
  \<^verbatim>\<open>tfColorMapIndexRange\<close> is zero the quotient is an infinity or NaN for every scalar
  value, its conversion to \<^verbatim>\<open>size_t\<close> is undefined, and the lookup has no defined
  result: nothing is clamped to a zero contribution.
\<close>

theorem getTFValue_zero_range_undefined:
  "tfColorMapIndexRange cfg = Num 0 \<Longrightarrow> getTFValue cfg val = None"
  by (rule getTFValue_zero_range)

theorem getTFValue_zero_range_undefined_witness:
  "tfColorMapIndexRange (exampleConfig\<lparr>tfColorMapIndexRange := Num 0\<rparr>) = Num 0
   \<and> getTFValue (exampleConfig\<lparr>tfColorMapIndexRange := Num 0\<rparr>) (Num 1) = None"
  using getTFValue_zero_range_undefined
    [of "exampleConfig\<lparr>tfColorMapIndexRange := Num 0\<rparr>" "Num 1"]
  by simp

text \<open>
  With a zero range the classification of the value \<open>1\<close> is not the zero contribution
  \<open>(0, 0, 0, 0)\<close>.
\<close>

theorem getTFValue_zero_range_counterexample:
  "getTFValue (exampleConfig\<lparr>tfColorMapIndexRange := Num 0\<rparr>) (Num 1)
     \<noteq> Some (Vec4 (Num 0) (Num 0) (Num 0) (Num 0))"
  by (simp add: getTFValue_def getTFIndex_def range01_def exampleConfig_def fsub_def)

section \<open>The 2D opacity classification\<close>







lemma coarse_isRounding: "isRounding coarseRound"
proof -
  have idem: "coarseRound y = Num y" if "coarseRound x = Num y" for x y
  proof (cases "\<bar>x\<bar> < 8")
    case True
    with that show ?thesis by (simp add: coarseRound_def)
  next
    case False
    define n where "n = \<lfloor>\<bar>x\<bar> + 1 / 2\<rfloor>"
    have n8: "8 \<le> n" using False unfolding n_def by (simp add: le_floor_iff)
    have y: "y = sgn x * of_int n" using that False by (simp add: coarseRound_def n_def)
    have sx: "sgn x = 1 \<or> sgn x = - 1" using False by (cases "0 < x") (auto simp: sgn_if)
    then have ay: "\<bar>y\<bar> = of_int n" using y n8 by auto
    have sy: "sgn y = sgn x" using y n8 sx by (auto simp: sgn_if)
    have "\<lfloor>\<bar>y\<bar> + 1 / 2\<rfloor> = n" unfolding ay by (simp add: floor_eq_iff)
    moreover have "\<not> \<bar>y\<bar> < 8" using ay n8 by simp
    ultimately show ?thesis using y sy by (simp add: coarseRound_def)
  qed
  have odd: "coarseRound (- x) = fneg (coarseRound x)" for x
    by (simp add: coarseRound_def)
  show ?thesis unfolding isRounding_def
    using idem odd by (auto simp: coarseRound_def)
qed

text \<open>
  Under the coarse rounding the apex of the steep configuration gets opacity 1 and the
  apex of the narrow configuration gets NaN: both edge lines evaluate to 0 there, below
  the minimum magnitude 0.25, so the apex passes the inside test; the projected distance
  is 1 in the first case and 0 in the second.
\<close>

lemma coarse_apex_one:
  "getTF2DOpacity coarseRound steepConfig steepGradientVolume (TF2DIntensity steepConfig)
     (minMagnitude steepGradientVolume) = Num 1"
  by (simp add: getTF2DOpacity_def steepConfig_def steepGradientVolume_def exampleConfig_def
      exampleGradientVolume_def radd_def rsub_def rmul_def rdiv_def rounded_def coarseRound_def
      fsub_def fgt_def Let_def)

lemma coarse_apex_nan:
  "getTF2DOpacity coarseRound narrowConfig narrowGradientVolume (TF2DIntensity narrowConfig)
     (minMagnitude narrowGradientVolume) = NaN"
  by (simp add: getTF2DOpacity_def narrowConfig_def narrowGradientVolume_def exampleConfig_def
      exampleGradientVolume_def radd_def rsub_def rmul_def rdiv_def rounded_def coarseRound_def
      fsub_def fgt_def Let_def)




section \<open>The ray/box intersection\<close>

lemma intersect_miss:
  "\<not> fst (instersectRayVolumeBounds ray bounds) \<Longrightarrow>
     snd (instersectRayVolumeBounds ray bounds) = ray"
  unfolding instersectRayVolumeBounds_def by (auto simp: Let_def split: if_splits)

lemma missRay_eval: "instersectRayVolumeBounds missRay exampleBounds = (False, missRay)"
  by (simp add: instersectRayVolumeBounds_def missRay_def exampleBounds_def lowerUpper_def
      fgt_def fsub_def std_max_def std_min_def Let_def)

text \<open>
  Claim C10. When the intersection reports a miss, the ray it leaves behind is the ray
  it was given: \<^verbatim>\<open>tmin\<close> and \<^verbatim>\<open>tmax\<close> keep their values, since the function works on
  locals and assigns \<^verbatim>\<open>ray.tmin\<close> and \<^verbatim>\<open>ray.tmax\<close> only before \<^verbatim>\<open>return true\<close>.
\<close>

theorem intersect_miss_leaves_interval:
  "\<not> fst (instersectRayVolumeBounds ray bounds) \<Longrightarrow>
     tmin (snd (instersectRayVolumeBounds ray bounds)) = tmin ray
     \<and> tmax (snd (instersectRayVolumeBounds ray bounds)) = tmax ray
     \<and> snd (instersectRayVolumeBounds ray bounds) = ray"
  using intersect_miss[of ray bounds] by simp

theorem intersect_miss_leaves_interval_witness:
  "\<not> fst (instersectRayVolumeBounds missRay exampleBounds)
   \<and> tmin (snd (instersectRayVolumeBounds missRay exampleBounds)) = Num 3
   \<and> tmax (snd (instersectRayVolumeBounds missRay exampleBounds)) = Num 4"
  using intersect_miss_leaves_interval[of missRay exampleBounds]
  by (simp add: missRay_eval) (simp add: missRay_def)

text \<open>
  In exact arithmetic, when all inputs are finite, no component of the direction is zero
  and the box is not inverted, every distance is finite and a hit does leave
  \<^verbatim>\<open>tmin <= tmax\<close>. (With rounding a quotient \<^verbatim>\<open>1.0f / d\<close> can overflow to an infinity,
  and the case below arises for a tiny \<^verbatim>\<open>d\<close> as well.)
\<close>

lemma slab_ordered:
  fixes d l u o' :: real
  assumes "d \<noteq> 0" "l \<le> u"
  shows "((if 1 / d < 0 then u else l) - o') * (1 / d) \<le> ((if 1 / d < 0 then l else u) - o') * (1 / d)"
proof (cases "0 < d")
  case True
  then have "\<not> 1 / d < 0" by simp
  moreover have "(l - o') * (1 / d) \<le> (u - o') * (1 / d)"
    using True assms(2) by (intro mult_right_mono) simp_all
  ultimately show ?thesis by simp
next
  case False
  then have neg: "d < 0" using assms(1) by simp
  then have "1 / d < 0" by simp
  moreover have "(u - o') * (1 / d) \<le> (l - o') * (1 / d)"
    using neg assms(2) by (intro mult_right_mono_neg) simp_all
  ultimately show ?thesis by simp
qed

lemma intersect_hit_ordered:
  assumes "origin ray = Vec3 (Num ox) (Num oy) (Num oz)"
    "direction ray = Vec3 (Num dx) (Num dy) (Num dz)"
    "lower bounds = Vec3 (Num lx) (Num ly) (Num lz)"
    "upper bounds = Vec3 (Num ux) (Num uy) (Num uz)"
    "dx \<noteq> 0" "dy \<noteq> 0" "dz \<noteq> 0" "lx \<le> ux" "ly \<le> uy" "lz \<le> uz"
    "fst (instersectRayVolumeBounds ray bounds)"
  shows "fle (tmin (snd (instersectRayVolumeBounds ray bounds)))
           (tmax (snd (instersectRayVolumeBounds ray bounds)))"
proof -
  define nx where "nx = ((if 1 / dx < 0 then ux else lx) - ox) * (1 / dx)"
  define fx where "fx = ((if 1 / dx < 0 then lx else ux) - ox) * (1 / dx)"
  define ny where "ny = ((if 1 / dy < 0 then uy else ly) - oy) * (1 / dy)"
  define fy where "fy = ((if 1 / dy < 0 then ly else uy) - oy) * (1 / dy)"
  define nz where "nz = ((if 1 / dz < 0 then uz else lz) - oz) * (1 / dz)"
  define fz where "fz = ((if 1 / dz < 0 then lz else uz) - oz) * (1 / dz)"
  have ord: "nx \<le> fx" "ny \<le> fy" "nz \<le> fz"
    unfolding nx_def fx_def ny_def fy_def nz_def fz_def
    using slab_ordered[OF assms(5) assms(8)] slab_ordered[OF assms(6) assms(9)]
      slab_ordered[OF assms(7) assms(10)] by blast+
  have x: "fmul (fsub (vx (lowerUpper bounds (flt (fdiv (Num 1) (Num dx)) (Num 0)))) (Num ox))
             (fdiv (Num 1) (Num dx)) = Num nx"
     "fmul (fsub (vx (lowerUpper bounds (\<not> flt (fdiv (Num 1) (Num dx)) (Num 0)))) (Num ox))
             (fdiv (Num 1) (Num dx)) = Num fx"
    using assms(3,4,5) by (simp_all add: lowerUpper_def fsub_def nx_def fx_def)
  have y: "fmul (fsub (vy (lowerUpper bounds (flt (fdiv (Num 1) (Num dy)) (Num 0)))) (Num oy))
             (fdiv (Num 1) (Num dy)) = Num ny"
     "fmul (fsub (vy (lowerUpper bounds (\<not> flt (fdiv (Num 1) (Num dy)) (Num 0)))) (Num oy))
             (fdiv (Num 1) (Num dy)) = Num fy"
    using assms(3,4,6) by (simp_all add: lowerUpper_def fsub_def ny_def fy_def)
  have z: "fmul (fsub (vz (lowerUpper bounds (flt (fdiv (Num 1) (Num dz)) (Num 0)))) (Num oz))
             (fdiv (Num 1) (Num dz)) = Num nz"
     "fmul (fsub (vz (lowerUpper bounds (\<not> flt (fdiv (Num 1) (Num dz)) (Num 0)))) (Num oz))
             (fdiv (Num 1) (Num dz)) = Num fz"
    using assms(3,4,7) by (simp_all add: lowerUpper_def fsub_def nz_def fz_def)
  show ?thesis
    using assms(11) ord
    unfolding instersectRayVolumeBounds_def Let_def assms(1,2) vec3.sel x y z
    by (auto simp: fgt_def std_max_def std_min_def split: if_splits)
qed

text \<open>
  Claim C8 fails on the code when a component of the direction is zero and the origin
  lies on a bounding plane of that axis. For the grazing ray every input is finite. On the \<open>x\<close>
  axis the inverse direction is \<^verbatim>\<open>1.0f / 0.0f = +inf\<close> and the near distance is
  \<^verbatim>\<open>(0 - 0) * inf = NaN\<close>. Both rejection tests compare with \<^verbatim>\<open>>\<close>, which is false on
  NaN, and \<^verbatim>\<open>std::max(NaN, x)\<close> returns its first argument, so the function returns
  \<^verbatim>\<open>true\<close> and writes \<^verbatim>\<open>tmin = NaN\<close>, \<^verbatim>\<open>tmax = 15\<close>: \<^verbatim>\<open>tmin <= tmax\<close> is false.
\<close>

theorem intersect_grazing_ray_nan:
  "instersectRayVolumeBounds grazingRay exampleBounds
     = (True, grazingRay\<lparr>tmin := NaN, tmax := Num 15\<rparr>)
   \<and> \<not> fle (tmin (snd (instersectRayVolumeBounds grazingRay exampleBounds)))
          (tmax (snd (instersectRayVolumeBounds grazingRay exampleBounds)))"
  by (simp add: instersectRayVolumeBounds_def grazingRay_def exampleBounds_def lowerUpper_def
      fgt_def fsub_def std_max_def std_min_def Let_def)

section \<open>Properties of the bisection\<close>

lemma bisectionLoop_stop:
  "n < maxIterations \<Longrightarrow> bisectStop vol ray isoVal (a, b) \<Longrightarrow>
     bisectionLoop vol ray isoVal n a b c = midpoint (a, b)"
  by (subst bisectionLoop.simps) (simp add: bisectStop_def midpoint_def probe_def Let_def)

lemma bisectionLoop_step:
  "n < maxIterations \<Longrightarrow> \<not> bisectStop vol ray isoVal (a, b) \<Longrightarrow>
     bisectionLoop vol ray isoVal n a b c =
       bisectionLoop vol ray isoVal (Suc n) (fst (bisectNarrow vol ray isoVal (a, b)))
         (snd (bisectNarrow vol ray isoVal (a, b))) (midpoint (a, b))"
  by (subst bisectionLoop.simps)
    (simp add: bisectStop_def bisectNarrow_def midpoint_def probe_def Let_def)

lemma bisectionLoop_exhausted:
  "\<not> n < maxIterations \<Longrightarrow> bisectionLoop vol ray isoVal n a b c = c"
  by (subst bisectionLoop.simps) simp

lemma bisectionLoop_char:
  "n < 30 \<Longrightarrow> m = 29 - n \<Longrightarrow>
   \<exists>k. n + k < 30
     \<and> bisectionLoop vol ray isoVal n a b c = midpoint ((bisectNarrow vol ray isoVal ^^ k) (a, b))
     \<and> (\<forall>j<k. \<not> bisectStop vol ray isoVal ((bisectNarrow vol ray isoVal ^^ j) (a, b)))
     \<and> (n + k < 29 \<longrightarrow> bisectStop vol ray isoVal ((bisectNarrow vol ray isoVal ^^ k) (a, b)))"
proof (induction m arbitrary: n a b c)
  case 0
  then have n: "n = 29" by simp
  show ?case
  proof (cases "bisectStop vol ray isoVal (a, b)")
    case True
    then have "bisectionLoop vol ray isoVal n a b c = midpoint (a, b)"
      using n by (simp add: bisectionLoop_stop maxIterations_def)
    then show ?thesis using n by (intro exI[of _ 0]) simp
  next
    case False
    then have "bisectionLoop vol ray isoVal n a b c = midpoint (a, b)"
      using n by (simp add: bisectionLoop_step bisectionLoop_exhausted maxIterations_def)
    then show ?thesis using n by (intro exI[of _ 0]) simp
  qed
next
  case (Suc m)
  then have n: "n < 29" "Suc n < 30" "m = 29 - Suc n" by simp_all
  show ?case
  proof (cases "bisectStop vol ray isoVal (a, b)")
    case True
    then have "bisectionLoop vol ray isoVal n a b c = midpoint (a, b)"
      using n by (simp add: bisectionLoop_stop maxIterations_def)
    then show ?thesis using n True by (intro exI[of _ 0]) simp
  next
    case False
    let ?N = "bisectNarrow vol ray isoVal"
    obtain a' b' where ab': "?N (a, b) = (a', b')" by (cases "?N (a, b)")
    have step: "bisectionLoop vol ray isoVal n a b c =
        bisectionLoop vol ray isoVal (Suc n) a' b' (midpoint (a, b))"
      using n False ab' by (simp add: bisectionLoop_step maxIterations_def)
    from Suc.IH[OF n(2) n(3), of a' b' "midpoint (a, b)"]
    obtain k where k: "Suc n + k < 30"
      "bisectionLoop vol ray isoVal (Suc n) a' b' (midpoint (a, b)) = midpoint ((?N ^^ k) (a', b'))"
      "\<forall>j<k. \<not> bisectStop vol ray isoVal ((?N ^^ j) (a', b'))"
      "Suc n + k < 29 \<longrightarrow> bisectStop vol ray isoVal ((?N ^^ k) (a', b'))"
      by blast
    have shift: "\<And>j. (?N ^^ Suc j) (a, b) = (?N ^^ j) (a', b')"
      using ab' by (simp add: funpow_swap1)
    have "\<forall>j<Suc k. \<not> bisectStop vol ray isoVal ((?N ^^ j) (a, b))"
    proof (intro allI impI)
      fix j assume "j < Suc k"
      show "\<not> bisectStop vol ray isoVal ((?N ^^ j) (a, b))"
      proof (cases j)
        case 0 then show ?thesis using False by simp
      next
        case (Suc j')
        then show ?thesis using k(3) \<open>j < Suc k\<close> shift[of j'] by simp
      qed
    qed
    then show ?thesis
      using k step shift[of k] by (intro exI[of _ "Suc k"]) simp
  qed
qed

text \<open>
  The local \<^verbatim>\<open>c\<close> has no initial value in the source; the value the model starts it
  with is never returned.
\<close>

lemma bisectionLoop_init: "bisectionLoop vol ray isoVal 0 a b c = bisectionLoop vol ray isoVal 0 a b c'"
  by (cases "bisectStop vol ray isoVal (a, b)")
    (simp_all add: bisectionLoop_stop bisectionLoop_step maxIterations_def)

lemma example_interval:
  "bisectInterval exampleVolume exampleRay (Num 95) (Num 0) (Num 1) j = (Num 0, Num (1 / 2 ^ j))"
proof (induction j)
  case 0
  show ?case by (simp add: bisectInterval_def)
next
  case (Suc j)
  have "bisectInterval exampleVolume exampleRay (Num 95) (Num 0) (Num 1) (Suc j)
      = bisectNarrow exampleVolume exampleRay (Num 95) (Num 0, Num (1 / 2 ^ j))"
    using Suc by (simp add: bisectInterval_def)
  also have "\<dots> = (Num 0, Num (1 / 2 ^ Suc j))"
    by (simp add: bisectNarrow_def midpoint_def probe_def exampleVolume_def exampleRay_def
        vadd_def vscale_def)
  finally show ?case .
qed

lemma example_stop:
  "bisectStop exampleVolume exampleRay (Num 95)
     (bisectInterval exampleVolume exampleRay (Num 95) (Num 0) (Num 1) j)
   = ((2::real) ^ j > 100)"
  unfolding example_interval
  by (simp add: bisectStop_def midpoint_def probe_def exampleVolume_def
      exampleRay_def vadd_def vscale_def precision_def fsub_def field_simps)

text \<open>
  Claim C9. The loop runs at most 30 iterations: for some \<open>k < 30\<close> the search ends in
  its iteration \<open>k\<close> (counted from 0) and returns the midpoint of the interval that
  iteration examines, which is the interval reached after \<open>k\<close> halvings. No earlier
  iteration met the stopping test, and when the search ends before the last iteration
  (\<open>k < 29\<close>) the stopping test holds there: the sample at the midpoint is within 0.01
  of the isovalue or the interval is narrower than 0.01.
\<close>

theorem bisectionAccuracy_bounded:
  "\<exists>k<30.
     bisectionAccuracy vol ray t0 t1 isoVal = midpoint (bisectInterval vol ray isoVal t0 t1 k)
     \<and> (\<forall>j<k. \<not> bisectStop vol ray isoVal (bisectInterval vol ray isoVal t0 t1 j))
     \<and> (k < 29 \<longrightarrow> bisectStop vol ray isoVal (bisectInterval vol ray isoVal t0 t1 k))"
  using bisectionLoop_char[of 0 29 vol ray isoVal t0 t1 "Num 0"]
  unfolding bisectionAccuracy_def bisectInterval_def by simp

text \<open>
  On the example volume the search from \<open>[0, 1]\<close> halves the interval seven times and
  stops in \<open>[0, 1/128]\<close>, which is narrower than 0.01.
\<close>

theorem bisectionAccuracy_bounded_witness:
  "bisectionAccuracy exampleVolume exampleRay (Num 0) (Num 1) (Num 95) = Num (1 / 256)"
proof -
  from bisectionAccuracy_bounded[of exampleVolume exampleRay "Num 0" "Num 1" "Num 95"]
  obtain k where k: "k < 30"
    "bisectionAccuracy exampleVolume exampleRay (Num 0) (Num 1) (Num 95)
       = midpoint (bisectInterval exampleVolume exampleRay (Num 95) (Num 0) (Num 1) k)"
    "\<forall>j<k. \<not> (2::real) ^ j > 100"
    "k < 29 \<longrightarrow> (2::real) ^ k > 100"
    unfolding example_stop by blast
  have "\<not> k < 7"
  proof
    assume "k < 7"
    then have "(2::real) ^ k \<le> 2 ^ 6" by (intro power_increasing) simp_all
    with k(4) \<open>k < 7\<close> show False by simp
  qed
  moreover have "\<not> 7 < k"
  proof
    assume "7 < k"
    with k(3) have "\<not> (2::real) ^ 7 > 100" by blast
    then show False by simp
  qed
  ultimately have "k = 7" by simp
  with k(2) show ?thesis by (simp add: example_interval midpoint_def)
qed

section \<open>Properties of the sampling loop\<close>

lemma sampleLoop_done:
  "\<not> fle t tEnd \<Longrightarrow> sampleLoop body tEnd sampleStep increment t samplePos s = Some s"
  by (subst sampleLoop.simps) simp

lemma sampleLoop_undefined:
  "fle t tEnd \<Longrightarrow> body t samplePos s = None \<Longrightarrow>
     sampleLoop body tEnd sampleStep increment t samplePos s = None"
  by (subst sampleLoop.simps) simp

lemma sampleLoop_break:
  "fle t tEnd \<Longrightarrow> body t samplePos s = Some (Break s') \<Longrightarrow>
     sampleLoop body tEnd sampleStep increment t samplePos s = Some s'"
  by (subst sampleLoop.simps) simp

lemma sampleLoop_continue:
  "fle t tEnd \<Longrightarrow> body t samplePos s = Some (Continue s') \<Longrightarrow>
     sampleLoop body tEnd sampleStep increment t samplePos s =
       sampleLoop body tEnd sampleStep increment (fadd t sampleStep) (vadd samplePos increment) s'"
  by (subst sampleLoop.simps) simp

text \<open>The result of the loop is the last entry of its trace.\<close>

lemma sampleLoop_last_state:
  "sampleLoop body tEnd sampleStep increment t samplePos s = Some r \<Longrightarrow>
     \<exists>n. r = last (s # loopStates body tEnd sampleStep increment n t samplePos s)"
proof (induction rule: sampleLoop.raw_induct[rotated 1, consumes 1])
  case (1 f body tEnd sampleStep increment t samplePos s r)
  show ?case
  proof (cases "fle t tEnd")
    case False
    with 1(2) have "r = s" by simp
    then show ?thesis by (intro exI[of _ 0]) simp
  next
    case True
    show ?thesis
    proof (cases "body t samplePos s")
      case None
      with True 1(2) show ?thesis by simp
    next
      case (Some c)
      show ?thesis
      proof (cases c)
        case (Break s')
        with True Some 1(2) have "r = s'" by simp
        then show ?thesis using True Some Break by (intro exI[of _ "Suc 0"]) simp
      next
        case (Continue s')
        with True Some 1(2)
        have "f body tEnd sampleStep increment (fadd t sampleStep) (vadd samplePos increment) s' = Some r"
          by simp
        from 1(1)[OF this] obtain n where
          "r = last (s' # loopStates body tEnd sampleStep increment n (fadd t sampleStep)
                 (vadd samplePos increment) s')" by blast
        then show ?thesis using True Some Continue by (intro exI[of _ "Suc n"]) simp
      qed
    qed
  qed
qed

section \<open>The combined tracer at gamma 0\<close>

lemma fmul_one_right: "fmul d (Num 1) = d"
  by (cases d) auto

lemma combinedBody_gamma0:
  "gamma cfg = Num 0 \<Longrightarrow> combinedBody cfg vol gv cam ray = midaBody cfg vol gv cam ray"
  by (intro ext)
    (simp add: combinedBody_def midaBody_def finalColorCombined_def finalColorMIDA_def
      fmul_one_right Let_def split: prod.splits option.splits)

text \<open>
  Claim C1. With \<^verbatim>\<open>gamma = 0\<close> the combined tracer takes the branch \<^verbatim>\<open>gamma <= 0\<close>,
  where \<^verbatim>\<open>beta = 1 - delta * (1 + gamma)\<close> is \<^verbatim>\<open>1 - delta\<close>, the loop body is the MIDA
  body and the accumulated colour is returned as it is: on the same configuration,
  volume, gradient field, camera, ray and sample step both tracers give the same result
  (the same colour, or both none).
\<close>

theorem traceRayCombined_gamma0:
  "gamma cfg = Num 0 \<Longrightarrow>
     traceRayCombined cfg vol gv cam ray sampleStep = traceRayMIDA cfg vol gv cam ray sampleStep"
  by (simp add: traceRayCombined_def traceRayMIDA_def combinedBody_gamma0)

lemma example_mida:
  "traceRayMIDA exampleConfig exampleVolume exampleGradientVolume exampleCamera exampleRay (Num 1)
     = Some (Vec4 (Num 0) (Num 0.1) (Num 0) (Num 0.1))"
  by (simp add: traceRayMIDA_def sampleLoop.simps midaBody_def finalColorMIDA_def
      getTFValue_def getTFIndex_def range01_def tfColorMap_size_def trunc_zero_def
      exampleConfig_def exampleVolume_def exampleRay_def exampleColorMap_def
      vadd_def vscale_def fsub_def fgt_def std_max_def v4add_def v4scale_def vec3_of_def
      vec4_of_def Let_def)

text \<open>On the example scene both tracers return the colour \<open>(0, 0.1, 0, 0.1)\<close>.\<close>

theorem traceRayCombined_gamma0_witness:
  "traceRayCombined exampleConfig exampleVolume exampleGradientVolume exampleCamera exampleRay (Num 1)
     = Some (Vec4 (Num 0) (Num 0.1) (Num 0) (Num 0.1))"
proof -
  have "gamma exampleConfig = Num 0" by (simp add: exampleConfig_def)
  from traceRayCombined_gamma0[OF this] show ?thesis by (simp add: example_mida)
qed

section \<open>The isosurface tracer without shading\<close>

text \<open>
  The three ways the loop of the unshaded tracer can run, by induction on the number of
  iterations. Nothing here depends on what the loop's addition and comparison compute.
\<close>

lemma isoBody_hit:
  "exceedsIso cfg vol pos \<Longrightarrow> isoBody cfg vol t pos res = Some (Break (Num 1))"
  by (simp add: isoBody_def exceedsIso_def)

lemma isoBody_miss:
  "\<not> exceedsIso cfg vol pos \<Longrightarrow> isoBody cfg vol t pos res = Some (Continue res)"
  by (simp add: isoBody_def exceedsIso_def)

lemma param_shift:
  "((\<lambda>t. fadd t step) ^^ Suc j) t = ((\<lambda>t. fadd t step) ^^ j) (fadd t step)"
  by (simp only: funpow_Suc_right o_apply)

lemma position_shift:
  "((\<lambda>p. vadd p inc) ^^ Suc j) pos = ((\<lambda>p. vadd p inc) ^^ j) (vadd pos inc)"
  by (simp only: funpow_Suc_right o_apply)

lemma iso_loop_hit:
  "(\<forall>j\<le>k. fle (((\<lambda>t. fadd t step) ^^ j) t) tEnd) \<Longrightarrow>
   exceedsIso cfg vol (((\<lambda>p. vadd p inc) ^^ k) pos) \<Longrightarrow>
     sampleLoop (isoBody cfg vol) tEnd step inc t pos res = Some (Num 1)"
proof (induction k arbitrary: t pos)
  case 0
  then show ?case by (simp add: sampleLoop_break isoBody_hit)
next
  case (Suc k)
  from Suc.prems(1) have "fle (((\<lambda>t. fadd t step) ^^ 0) t) tEnd" by blast
  then have t: "fle t tEnd" by simp
  show ?case
  proof (cases "exceedsIso cfg vol pos")
    case True
    then show ?thesis using t by (simp add: sampleLoop_break isoBody_hit)
  next
    case False
    have "\<forall>j\<le>k. fle (((\<lambda>t. fadd t step) ^^ j) (fadd t step)) tEnd"
    proof (intro allI impI)
      fix j assume "j \<le> k"
      then have "Suc j \<le> Suc k" by simp
      with Suc.prems(1) have "fle (((\<lambda>t. fadd t step) ^^ Suc j) t) tEnd" by blast
      then show "fle (((\<lambda>t. fadd t step) ^^ j) (fadd t step)) tEnd"
        unfolding param_shift .
    qed
    moreover have "exceedsIso cfg vol (((\<lambda>p. vadd p inc) ^^ k) (vadd pos inc))"
      using Suc.prems(2) unfolding position_shift .
    ultimately have "sampleLoop (isoBody cfg vol) tEnd step inc (fadd t step) (vadd pos inc) res
        = Some (Num 1)" by (rule Suc.IH)
    then show ?thesis using t False by (simp add: sampleLoop_continue isoBody_miss)
  qed
qed

lemma iso_loop_miss:
  "\<not> fle (((\<lambda>t. fadd t step) ^^ n) t) tEnd \<Longrightarrow>
   (\<forall>j<n. fle (((\<lambda>t. fadd t step) ^^ j) t) tEnd
      \<and> \<not> exceedsIso cfg vol (((\<lambda>p. vadd p inc) ^^ j) pos)) \<Longrightarrow>
     sampleLoop (isoBody cfg vol) tEnd step inc t pos res = Some res"
proof (induction n arbitrary: t pos)
  case 0
  then show ?case by (simp add: sampleLoop_done)
next
  case (Suc n)
  from Suc.prems(2) have "fle (((\<lambda>t. fadd t step) ^^ 0) t) tEnd
      \<and> \<not> exceedsIso cfg vol (((\<lambda>p. vadd p inc) ^^ 0) pos)" by blast
  then have t: "fle t tEnd" and m: "\<not> exceedsIso cfg vol pos" by simp_all
  have "\<not> fle (((\<lambda>t. fadd t step) ^^ n) (fadd t step)) tEnd"
    using Suc.prems(1) unfolding param_shift .
  moreover have "\<forall>j<n. fle (((\<lambda>t. fadd t step) ^^ j) (fadd t step)) tEnd
      \<and> \<not> exceedsIso cfg vol (((\<lambda>p. vadd p inc) ^^ j) (vadd pos inc))"
  proof (intro allI impI)
    fix j assume "j < n"
    then have "Suc j < Suc n" by simp
    with Suc.prems(2) have "fle (((\<lambda>t. fadd t step) ^^ Suc j) t) tEnd
      \<and> \<not> exceedsIso cfg vol (((\<lambda>p. vadd p inc) ^^ Suc j) pos)" by blast
    then show "fle (((\<lambda>t. fadd t step) ^^ j) (fadd t step)) tEnd
      \<and> \<not> exceedsIso cfg vol (((\<lambda>p. vadd p inc) ^^ j) (vadd pos inc))"
      unfolding param_shift position_shift .
  qed
  ultimately have "sampleLoop (isoBody cfg vol) tEnd step inc (fadd t step) (vadd pos inc) res
      = Some res" by (rule Suc.IH)
  then show ?case using t m by (simp add: sampleLoop_continue isoBody_miss)
qed

lemma iso_loop_runs_on_aux:
  "sampleLoop body tEnd step inc t pos res = Some r \<Longrightarrow> body = isoBody cfg vol \<Longrightarrow>
   (\<forall>k. fle (((\<lambda>t. fadd t step) ^^ k) t) tEnd
      \<and> \<not> exceedsIso cfg vol (((\<lambda>p. vadd p inc) ^^ k) pos)) \<Longrightarrow> False"
proof (induction rule: sampleLoop.raw_induct[rotated 1, consumes 1])
  case (1 f body tEnd step inc t pos res r)
  from 1(4) have "fle (((\<lambda>t. fadd t step) ^^ 0) t) tEnd
      \<and> \<not> exceedsIso cfg vol (((\<lambda>p. vadd p inc) ^^ 0) pos)" by blast
  then have t: "fle t tEnd" and m: "\<not> exceedsIso cfg vol pos" by simp_all
  from 1(2) t m 1(3)
  have run: "f body tEnd step inc (fadd t step) (vadd pos inc) res = Some r"
    by (simp add: isoBody_miss)
  have "\<forall>k. fle (((\<lambda>t. fadd t step) ^^ k) (fadd t step)) tEnd
      \<and> \<not> exceedsIso cfg vol (((\<lambda>p. vadd p inc) ^^ k) (vadd pos inc))"
  proof
    fix k
    have "fle (((\<lambda>t. fadd t step) ^^ Suc k) t) tEnd
      \<and> \<not> exceedsIso cfg vol (((\<lambda>p. vadd p inc) ^^ Suc k) pos)"
      using 1(4) by blast
    then show "fle (((\<lambda>t. fadd t step) ^^ k) (fadd t step)) tEnd
      \<and> \<not> exceedsIso cfg vol (((\<lambda>p. vadd p inc) ^^ k) (vadd pos inc))"
      unfolding param_shift position_shift .
  qed
  with 1(1)[OF run 1(3)] show False .
qed

lemma iso_loop_runs_on:
  assumes "\<forall>k. fle (((\<lambda>t. fadd t step) ^^ k) t) tEnd
      \<and> \<not> exceedsIso cfg vol (((\<lambda>p. vadd p inc) ^^ k) pos)"
  shows "sampleLoop (isoBody cfg vol) tEnd step inc t pos res = None"
proof (cases "sampleLoop (isoBody cfg vol) tEnd step inc t pos res")
  case (Some r)
  from iso_loop_runs_on_aux[OF Some refl assms] show ?thesis ..
qed simp

text \<open>
  Claim C5, as the code has it. With volume shading disabled the isosurface tracer
  returns the yellow-green surface colour \<open>(0.8, 0.8, 0, 1)\<close> when the sampling loop
  reaches a sample that exceeds the isovalue (the loop parameter of that sample and of
  every earlier one is at most \<^verbatim>\<open>tmax\<close>). It returns opaque black \<open>(0, 0, 0, 1)\<close>,
  which is \<^verbatim>\<open>glm::vec4(color * res, 1.0f)\<close> with \<^verbatim>\<open>res = 0\<close> and not the cleared
  background \<open>(0, 0, 0, 0)\<close>, when the loop parameter passes \<^verbatim>\<open>tmax\<close> before any sample
  exceeds the isovalue. When the loop parameter never passes \<^verbatim>\<open>tmax\<close> and no sample
  exceeds the isovalue, the tracer does not return.
\<close>

theorem traceRayISO_unshaded:
  "\<not> volumeShading cfg \<Longrightarrow>
     ((\<exists>k. (\<forall>j\<le>k. fle (sampleParam ray sampleStep j) (tmax ray))
           \<and> exceedsIso cfg vol (samplePosition ray sampleStep k))
        \<longrightarrow> traceRayISO cfg vol gv cam ray sampleStep
              = Some (Vec4 (Num 0.8) (Num 0.8) (Num 0) (Num 1)))
     \<and> ((\<exists>n. \<not> fle (sampleParam ray sampleStep n) (tmax ray)
           \<and> (\<forall>j<n. fle (sampleParam ray sampleStep j) (tmax ray)
                    \<and> \<not> exceedsIso cfg vol (samplePosition ray sampleStep j)))
        \<longrightarrow> traceRayISO cfg vol gv cam ray sampleStep
              = Some (Vec4 (Num 0) (Num 0) (Num 0) (Num 1)))
     \<and> ((\<forall>k. fle (sampleParam ray sampleStep k) (tmax ray)
              \<and> \<not> exceedsIso cfg vol (samplePosition ray sampleStep k))
        \<longrightarrow> traceRayISO cfg vol gv cam ray sampleStep = None)"
proof -
  assume ns: "\<not> volumeShading cfg"
  let ?inc = "vscale sampleStep (direction ray)"
  let ?p0 = "vadd (origin ray) (vscale (tmin ray) (direction ray))"
  let ?loop = "sampleLoop (isoBody cfg vol) (tmax ray) sampleStep ?inc (tmin ray) ?p0 (Num 0)"
  have tr: "traceRayISO cfg vol gv cam ray sampleStep
      = map_option (\<lambda>res. vec4_of (vscaler isoColor res) (Num 1)) ?loop"
    using ns by (simp add: traceRayISO_def Let_def)
  have a: "traceRayISO cfg vol gv cam ray sampleStep
      = Some (Vec4 (Num 0.8) (Num 0.8) (Num 0) (Num 1))"
    if "\<exists>k. (\<forall>j\<le>k. fle (sampleParam ray sampleStep j) (tmax ray))
           \<and> exceedsIso cfg vol (samplePosition ray sampleStep k)"
  proof -
    from that obtain k where "\<forall>j\<le>k. fle (sampleParam ray sampleStep j) (tmax ray)"
      "exceedsIso cfg vol (samplePosition ray sampleStep k)" by blast
    then have "?loop = Some (Num 1)"
      unfolding sampleParam_def samplePosition_def by (rule iso_loop_hit)
    then show ?thesis unfolding tr by (simp add: isoColor_def vscaler_def vec4_of_def)
  qed
  have b: "traceRayISO cfg vol gv cam ray sampleStep
      = Some (Vec4 (Num 0) (Num 0) (Num 0) (Num 1))"
    if "\<exists>n. \<not> fle (sampleParam ray sampleStep n) (tmax ray)
           \<and> (\<forall>j<n. fle (sampleParam ray sampleStep j) (tmax ray)
                    \<and> \<not> exceedsIso cfg vol (samplePosition ray sampleStep j))"
  proof -
    from that obtain n where "\<not> fle (sampleParam ray sampleStep n) (tmax ray)"
      "\<forall>j<n. fle (sampleParam ray sampleStep j) (tmax ray)
                    \<and> \<not> exceedsIso cfg vol (samplePosition ray sampleStep j)" by blast
    then have "?loop = Some (Num 0)"
      unfolding sampleParam_def samplePosition_def by (rule iso_loop_miss)
    then show ?thesis unfolding tr by (simp add: isoColor_def vscaler_def vec4_of_def)
  qed
  have c: "traceRayISO cfg vol gv cam ray sampleStep = None"
    if "\<forall>k. fle (sampleParam ray sampleStep k) (tmax ray)
              \<and> \<not> exceedsIso cfg vol (samplePosition ray sampleStep k)"
  proof -
    from that have "?loop = None"
      unfolding sampleParam_def samplePosition_def by (rule iso_loop_runs_on)
    then show ?thesis unfolding tr by simp
  qed
  from a b c show ?thesis by blast
qed

lemma example_params:
  "sampleParam exampleRay (Num 1) 0 = Num 0"
  "sampleParam exampleRay (Num 1) (Suc 0) = Num 1"
  "sampleParam exampleRay (Num 1) (Suc (Suc 0)) = Num 2"
  by (simp_all add: sampleParam_def exampleRay_def)

lemma example_position:
  "samplePosition exampleRay (Num 1) (Suc 0) = Vec3 (Num 1) (Num 0) (Num 0)"
  by (simp add: samplePosition_def exampleRay_def vadd_def vscale_def)

lemma example_param_stalls: "sampleParam exampleRay (Num 0) k = Num 0"
  by (induction k) (simp_all add: sampleParam_def exampleRay_def)

text \<open>
  On the example ray with step 1 the samples have parameters 0 and 1. On the example
  volume the second one exceeds the isovalue 95; on the volume that is 0 everywhere none
  does, and with step 0 the loop parameter stays at 0.
\<close>

theorem traceRayISO_unshaded_witness:
  "traceRayISO exampleConfig exampleVolume exampleGradientVolume exampleCamera exampleRay (Num 1)
     = Some (Vec4 (Num 0.8) (Num 0.8) (Num 0) (Num 1))
   \<and> traceRayISO exampleConfig darkVolume exampleGradientVolume exampleCamera exampleRay (Num 1)
     = Some (Vec4 (Num 0) (Num 0) (Num 0) (Num 1))
   \<and> traceRayISO exampleConfig darkVolume exampleGradientVolume exampleCamera exampleRay (Num 0)
     = None"
proof -
  have ns: "\<not> volumeShading exampleConfig" by (simp add: exampleConfig_def)
  have tm: "tmax exampleRay = Num 1" by (simp add: exampleRay_def)
  have le1: "j = 0 \<or> j = Suc 0" if "j \<le> Suc 0" for j :: nat using that by auto
  have lt2: "j = 0 \<or> j = Suc 0" if "j < Suc (Suc 0)" for j :: nat using that by auto
  have dark: "\<not> exceedsIso exampleConfig darkVolume p" for p
    by (simp add: exceedsIso_def darkVolume_def exampleConfig_def fgt_def)
  have hit: "\<exists>k. (\<forall>j\<le>k. fle (sampleParam exampleRay (Num 1) j) (tmax exampleRay))
      \<and> exceedsIso exampleConfig exampleVolume (samplePosition exampleRay (Num 1) k)"
  proof (intro exI[of _ "Suc 0"] conjI allI impI)
    fix j :: nat assume "j \<le> Suc 0"
    from le1[OF this] show "fle (sampleParam exampleRay (Num 1) j) (tmax exampleRay)"
      using example_params by (auto simp: tm)
  next
    show "exceedsIso exampleConfig exampleVolume (samplePosition exampleRay (Num 1) (Suc 0))"
      by (simp add: example_position exceedsIso_def exampleVolume_def exampleConfig_def fgt_def)
  qed
  have miss: "\<exists>n. \<not> fle (sampleParam exampleRay (Num 1) n) (tmax exampleRay)
      \<and> (\<forall>j<n. fle (sampleParam exampleRay (Num 1) j) (tmax exampleRay)
               \<and> \<not> exceedsIso exampleConfig darkVolume (samplePosition exampleRay (Num 1) j))"
  proof (intro exI[of _ "Suc (Suc 0)"] conjI allI impI)
    show "\<not> fle (sampleParam exampleRay (Num 1) (Suc (Suc 0))) (tmax exampleRay)"
      by (simp add: example_params tm)
  next
    fix j :: nat assume "j < Suc (Suc 0)"
    from lt2[OF this] show "fle (sampleParam exampleRay (Num 1) j) (tmax exampleRay)"
      using example_params by (auto simp: tm)
  next
    fix j :: nat
    show "\<not> exceedsIso exampleConfig darkVolume (samplePosition exampleRay (Num 1) j)"
      by (rule dark)
  qed
  have never: "\<forall>k. fle (sampleParam exampleRay (Num 0) k) (tmax exampleRay)
      \<and> \<not> exceedsIso exampleConfig darkVolume (samplePosition exampleRay (Num 0) k)"
    by (simp add: example_param_stalls dark tm)
  from traceRayISO_unshaded[OF ns, of exampleRay "Num 1" exampleVolume exampleGradientVolume
      exampleCamera] hit
    traceRayISO_unshaded[OF ns, of exampleRay "Num 1" darkVolume exampleGradientVolume
      exampleCamera] miss
    traceRayISO_unshaded[OF ns, of exampleRay "Num 0" darkVolume exampleGradientVolume
      exampleCamera] never
  show ?thesis by blast
qed

text \<open>
  On the volume that is \<open>0\<close> everywhere no sample exceeds the isovalue 95, and the
  tracer returns \<open>(0, 0, 0, 1)\<close>, whose alpha is 1.
\<close>

theorem traceRayISO_background_counterexample:
  "traceRayISO exampleConfig darkVolume exampleGradientVolume exampleCamera exampleRay (Num 1)
     = Some (Vec4 (Num 0) (Num 0) (Num 0) (Num 1))
   \<and> traceRayISO exampleConfig darkVolume exampleGradientVolume exampleCamera exampleRay (Num 1)
     \<noteq> Some (Vec4 (Num 0) (Num 0) (Num 0) (Num 0))"
  by (simp add: traceRayISO_def sampleLoop.simps isoBody_def isoColor_def darkVolume_def
      exampleConfig_def exampleRay_def vadd_def vscale_def vscaler_def vec4_of_def fgt_def
      Let_def)

section \<open>Accumulated opacity\<close>

lemma blend_bounds:
  fixes x opa :: real
  assumes "0 \<le> x" "x \<le> 1" "0 \<le> opa" "opa \<le> 1"
  shows "x \<le> x + (1 - x) * opa" "x + (1 - x) * opa \<le> 1"
proof -
  have "0 \<le> (1 - x) * opa" using assms by simp
  then show "x \<le> x + (1 - x) * opa" by simp
  have "(1 - x) * opa \<le> (1 - x) * 1" using assms by (intro mult_left_mono) simp_all
  then show "x + (1 - x) * opa \<le> 1" by simp
qed

lemma unit_Num: "fle (Num 0) x \<Longrightarrow> fle x (Num 1) \<Longrightarrow> \<exists>a. x = Num a \<and> 0 \<le> a \<and> a \<le> 1"
  by (cases x) auto

lemma getTFValue_opacity:
  assumes "tfOpacitiesInUnit cfg" "getTFValue cfg val = Some tfValue"
  shows "\<exists>opa. ca tfValue = Num opa \<and> 0 \<le> opa \<and> opa \<le> 1"
proof -
  from assms(2) obtain i where "getTFIndex cfg val = Some i" "tfValue = tfColorMap cfg i"
    by (auto simp: getTFValue_def)
  moreover from this have "i < tfColorMap_size" by (simp add: getTFIndex_bound)
  ultimately show ?thesis using assms(1) by (simp add: tfOpacitiesInUnit_def unit_Num)
qed

lemma compositeBody_step:
  assumes "tfOpacitiesInUnit cfg" "0 \<le> a0" "a0 \<le> 1"
    "compositeBody cfg vol gv cam ray t pos (Num a0, c0) = Some r"
  shows "\<exists>a1 c1. ctl_state r = (Num a1, c1) \<and> a0 \<le> a1 \<and> a1 \<le> 1"
proof -
  from assms(4) obtain tfValue where tf:
    "getTFValue cfg (getSampleInterpolate vol pos) = Some tfValue"
    by (auto simp: compositeBody_def Let_def split: option.splits)
  from getTFValue_opacity[OF assms(1) tf] obtain opa where
    opa: "ca tfValue = Num opa" "0 \<le> opa" "opa \<le> 1" by blast
  have "fst (ctl_state r) = Num (a0 + (1 - a0) * opa)"
    using assms(4) tf opa(1)
    by (auto simp: compositeBody_def Let_def fsub_def split: if_splits)
  then show ?thesis
    using blend_bounds[OF assms(2,3) opa(2,3)] by (cases "ctl_state r") auto
qed

lemma composite_states:
  assumes "tfOpacitiesInUnit cfg"
  shows "0 \<le> a0 \<Longrightarrow> a0 \<le> 1 \<Longrightarrow>
    (\<forall>x \<in> set (map fst (loopStates (compositeBody cfg vol gv cam ray) tEnd sampleStep inc n t pos
        (Num a0, c0))). \<exists>a. x = Num a \<and> a0 \<le> a \<and> a \<le> 1)
    \<and> sorted_wrt fle (map fst (loopStates (compositeBody cfg vol gv cam ray) tEnd sampleStep inc n
        t pos (Num a0, c0)))"
proof (induction n arbitrary: a0 c0 t pos)
  case 0
  show ?case by simp
next
  case (Suc n)
  let ?body = "compositeBody cfg vol gv cam ray"
  show ?case
  proof (cases "fle t tEnd \<and> ?body t pos (Num a0, c0) \<noteq> None")
    case False
    then have "loopStates ?body tEnd sampleStep inc (Suc n) t pos (Num a0, c0) = []"
      by (cases "fle t tEnd") auto
    then show ?thesis by simp
  next
    case True
    then obtain r where r: "?body t pos (Num a0, c0) = Some r" by auto
    from compositeBody_step[OF assms Suc.prems r] obtain a1 c1 where
      s1: "ctl_state r = (Num a1, c1)" "a0 \<le> a1" "a1 \<le> 1" by blast
    show ?thesis
    proof (cases "is_Continue r")
      case False
      then show ?thesis using True r s1 by simp
    next
      case cont: True
      have "0 \<le> a1" using Suc.prems s1 by simp
      note IH = Suc.IH[OF this s1(3), of "fadd t sampleStep" "vadd pos inc" c1]
      let ?rest = "map fst (loopStates ?body tEnd sampleStep inc n (fadd t sampleStep)
          (vadd pos inc) (Num a1, c1))"
      have eq: "map fst (loopStates ?body tEnd sampleStep inc (Suc n) t pos (Num a0, c0))
          = Num a1 # ?rest"
        using True r s1 cont by simp
      have "\<forall>x \<in> set ?rest. fle (Num a1) x" using IH by auto
      moreover have "\<forall>x \<in> set ?rest. \<exists>a. x = Num a \<and> a0 \<le> a \<and> a \<le> 1"
        using IH s1(2) by fastforce
      ultimately show ?thesis unfolding eq using IH s1 by simp
    qed
  qed
qed

lemma midaBody_step:
  assumes "tfOpacitiesInUnit cfg" "maximum vol = Num M"
    "\<forall>p. \<exists>v. getSampleInterpolate vol p = Num v \<and> v \<le> M"
    "0 \<le> m0" "0 \<le> a0" "a0 \<le> 1"
    "midaBody cfg vol gv cam ray t pos (Num m0, Num a0, c0) = Some r"
  shows "\<exists>m1 a1 c1. r = Continue (Num m1, Num a1, c1) \<and> 0 \<le> m1 \<and> 0 \<le> a1 \<and> a1 \<le> 1"
proof -
  from assms(3) obtain v where v: "getSampleInterpolate vol pos = Num v" "v \<le> M" by blast
  from assms(7) obtain tfValue where tf: "getTFValue cfg (Num v) = Some tfValue"
    by (auto simp: midaBody_def Let_def v split: option.splits)
  from getTFValue_opacity[OF assms(1) tf] obtain opa where
    opa: "ca tfValue = Num opa" "0 \<le> opa" "opa \<le> 1" by blast
  define beta where "beta = (if m0 < v then 1 - (v / M - m0 / M) else 1)"
  have beta: "0 \<le> beta" "beta \<le> 1"
  proof -
    show "0 \<le> beta"
    proof (cases "m0 < v")
      case True
      then have "0 < M" using v(2) assms(4) by linarith
      then have "(v - m0) / M \<le> 1" using v(2) assms(4) by (simp add: field_simps)
      then show ?thesis using True by (simp add: beta_def diff_divide_distrib)
    qed (simp add: beta_def)
    show "beta \<le> 1"
    proof (cases "m0 < v")
      case True
      then have "0 < M" using v(2) assms(4) by linarith
      then have "0 \<le> (v - m0) / M" using True by simp
      then show ?thesis using True by (simp add: beta_def diff_divide_distrib)
    qed (simp add: beta_def)
  qed
  have bdef: "(if fgt (Num v) (Num m0)
         then fsub (fdiv (Num v) (Num M)) (fdiv (Num m0) (Num M)) else Num 0) = Num (1 - beta)"
  proof (cases "m0 < v")
    case True
    then have "M \<noteq> 0" using v(2) assms(4) by linarith
    then show ?thesis using True by (simp add: fgt_def fsub_def beta_def)
  qed (simp add: fgt_def beta_def)
  have x: "0 \<le> beta * a0" "beta * a0 \<le> 1"
    using beta assms(5,6) by (simp_all add: mult_le_one)
  have r: "r = Continue (std_max (Num v) (Num m0),
      Num (beta * a0 + (1 - beta * a0) * opa),
      v4add (v4scale (Num beta) c0)
        (v4scale (Num ((1 - beta * a0) * opa))
          (vec4_of (finalColorMIDA cfg gv cam ray pos (vec3_of tfValue)) (Num 1))))"
    using assms(7) unfolding midaBody_def prod.case Let_def v assms(2) tf option.case bdef
    by (simp add: opa(1) fsub_def)
  have "\<exists>m1. std_max (Num v) (Num m0) = Num m1 \<and> 0 \<le> m1"
    using assms(4) by (auto simp: std_max_def)
  then show ?thesis using r blend_bounds[OF x opa(2,3)] x by auto
qed

lemma mida_states:
  assumes "tfOpacitiesInUnit cfg" "maximum vol = Num M"
    "\<forall>p. \<exists>v. getSampleInterpolate vol p = Num v \<and> v \<le> M"
  shows "0 \<le> m0 \<Longrightarrow> 0 \<le> a0 \<Longrightarrow> a0 \<le> 1 \<Longrightarrow>
    \<forall>s \<in> set (loopStates (midaBody cfg vol gv cam ray) tEnd sampleStep inc n t pos
        (Num m0, Num a0, c0)). \<exists>a. fst (snd s) = Num a \<and> 0 \<le> a \<and> a \<le> 1"
proof (induction n arbitrary: m0 a0 c0 t pos)
  case 0
  show ?case by simp
next
  case (Suc n)
  let ?body = "midaBody cfg vol gv cam ray"
  show ?case
  proof (cases "fle t tEnd \<and> ?body t pos (Num m0, Num a0, c0) \<noteq> None")
    case False
    then have "loopStates ?body tEnd sampleStep inc (Suc n) t pos (Num m0, Num a0, c0) = []"
      by (cases "fle t tEnd") auto
    then show ?thesis by simp
  next
    case True
    then obtain r where r: "?body t pos (Num m0, Num a0, c0) = Some r" by auto
    from midaBody_step[OF assms Suc.prems r] obtain m1 a1 c1 where
      s1: "r = Continue (Num m1, Num a1, c1)" "0 \<le> m1" "0 \<le> a1" "a1 \<le> 1" by blast
    note IH = Suc.IH[OF s1(2,3,4), of "fadd t sampleStep" "vadd pos inc" c1]
    have eq: "loopStates ?body tEnd sampleStep inc (Suc n) t pos (Num m0, Num a0, c0)
        = (Num m1, Num a1, c1)
          # loopStates ?body tEnd sampleStep inc n (fadd t sampleStep) (vadd pos inc)
              (Num m1, Num a1, c1)"
      using True r s1 by simp
    show ?thesis unfolding eq using IH s1 by simp
  qed
qed

lemma example_midaOpacities:
  "midaOpacities exampleConfig exampleVolume exampleGradientVolume exampleCamera exampleRay
     (Num 1) 2 = [Num 0.5, Num 0.1]"
  by (simp add: midaOpacities_def numeral_2_eq_2 midaBody_def finalColorMIDA_def
      getTFValue_def getTFIndex_def range01_def tfColorMap_size_def trunc_zero_def
      exampleConfig_def exampleVolume_def exampleRay_def exampleColorMap_def
      vadd_def vscale_def fsub_def fgt_def std_max_def v4add_def v4scale_def vec3_of_def
      vec4_of_def Let_def)

lemma example_compositeOpacities:
  "compositeOpacities exampleConfig exampleVolume exampleGradientVolume exampleCamera exampleRay
     (Num 1) 2 = [Num 0.5, Num 0.55]"
  by (simp add: compositeOpacities_def numeral_2_eq_2 compositeBody_def shadedColorComposite_def
      getTFValue_def getTFIndex_def range01_def tfColorMap_size_def trunc_zero_def
      exampleConfig_def exampleVolume_def exampleRay_def exampleColorMap_def
      vadd_def vscale_def fsub_def fge_def v4add_def v4scale_def vec3_of_def
      vec4_of_def Let_def)

text \<open>
  Claim C2, as the code has it. Let every opacity of the transfer function lie in
  \<open>[0, 1]\<close>. In the composite tracer the accumulated opacity after each iteration lies
  in \<open>[0, 1]\<close> and never decreases from one iteration to the next (starting from 0). In
  the MIDA tracer, when moreover every sample is at most the volume's maximum, the
  accumulated opacity after each iteration lies in \<open>[0, 1]\<close>; it is not monotone, because
  a sample that raises the running maximum first scales the accumulated opacity by
  \<^verbatim>\<open>beta = 1 - delta\<close>.
\<close>

theorem accumulated_opacity_invariants:
  "tfOpacitiesInUnit cfg \<Longrightarrow>
     (\<forall>x \<in> set (compositeOpacities cfg vol gv cam ray sampleStep n). fle (Num 0) x \<and> fle x (Num 1))
     \<and> sorted_wrt fle (Num 0 # compositeOpacities cfg vol gv cam ray sampleStep n)
     \<and> (samplesBelowMaximum vol \<longrightarrow>
          (\<forall>x \<in> set (midaOpacities cfg vol gv cam ray sampleStep n).
             fle (Num 0) x \<and> fle x (Num 1)))"
proof -
  assume tf: "tfOpacitiesInUnit cfg"
  let ?p0 = "vadd (origin ray) (vscale (tmin ray) (direction ray))"
  let ?inc = "vscale sampleStep (direction ray)"
  let ?c0 = "Vec4 (Num 0) (Num 0) (Num 0) (Num 0)"
  from composite_states[OF tf, of 0 vol gv cam ray "tmax ray" sampleStep ?inc n "tmin ray" ?p0 ?c0]
  have c: "\<forall>x \<in> set (compositeOpacities cfg vol gv cam ray sampleStep n).
        \<exists>a. x = Num a \<and> 0 \<le> a \<and> a \<le> 1"
    "sorted_wrt fle (compositeOpacities cfg vol gv cam ray sampleStep n)"
    by (simp_all add: compositeOpacities_def)
  from c(1) have c1: "\<forall>x \<in> set (compositeOpacities cfg vol gv cam ray sampleStep n).
      fle (Num 0) x \<and> fle x (Num 1)" by fastforce
  have m: "\<forall>x \<in> set (midaOpacities cfg vol gv cam ray sampleStep n). fle (Num 0) x \<and> fle x (Num 1)"
    if "samplesBelowMaximum vol"
  proof -
    from that obtain M where M: "maximum vol = Num M"
      "\<forall>p. \<exists>v. getSampleInterpolate vol p = Num v \<and> v \<le> M"
      by (auto simp: samplesBelowMaximum_def)
    from mida_states[OF tf M, of 0 0 gv cam ray "tmax ray" sampleStep ?inc n "tmin ray" ?p0 ?c0]
    show ?thesis by (fastforce simp: midaOpacities_def)
  qed
  show ?thesis using c1 c(2) m by simp
qed

text \<open>
  On the example scene the MIDA tracer accumulates opacity 0.5 at the first sample and
  0.1 at the second, where the scalar jumps from 0 to the volume's maximum
  (\<^verbatim>\<open>delta = 1\<close>, \<^verbatim>\<open>beta = 0\<close>): the accumulated opacity decreases.
\<close>

theorem mida_opacity_not_monotone_counterexample:
  "midaOpacities exampleConfig exampleVolume exampleGradientVolume exampleCamera exampleRay
     (Num 1) 2 = [Num 0.5, Num 0.1]
   \<and> \<not> fle (Num 0.5) (Num 0.1)
   \<and> \<not> sorted_wrt fle (midaOpacities exampleConfig exampleVolume exampleGradientVolume
          exampleCamera exampleRay (Num 1) 2)"
  by (simp add: example_midaOpacities)

theorem accumulated_opacity_invariants_witness:
  "tfOpacitiesInUnit exampleConfig \<and> samplesBelowMaximum exampleVolume
   \<and> compositeOpacities exampleConfig exampleVolume exampleGradientVolume exampleCamera
        exampleRay (Num 1) 2 = [Num 0.5, Num 0.55]
   \<and> sorted_wrt fle (Num 0 # compositeOpacities exampleConfig exampleVolume
        exampleGradientVolume exampleCamera exampleRay (Num 1) 2)
   \<and> list_all (\<lambda>x. fle (Num 0) x \<and> fle x (Num 1))
        (midaOpacities exampleConfig exampleVolume exampleGradientVolume exampleCamera
           exampleRay (Num 1) 2)"
proof -
  have tf: "tfOpacitiesInUnit exampleConfig"
    by (simp add: tfOpacitiesInUnit_def exampleConfig_def exampleColorMap_def)
  have sm: "samplesBelowMaximum exampleVolume"
    by (simp add: samplesBelowMaximum_def exampleVolume_def)
  from accumulated_opacity_invariants[OF tf, of exampleVolume exampleGradientVolume
      exampleCamera exampleRay "Num 1" 2] sm
  show ?thesis using tf by (simp add: example_compositeOpacities list_all_iff)
qed

section \<open>The light vector\<close>

lemma fneg_fadd: "fneg (fadd a b) = fadd (fneg a) (fneg b)"
  by (cases a; cases b) auto

lemma fadd_commute: "fadd a b = fadd b a"
  by (cases a; cases b) auto

lemma fneg_fneg: "fneg (fneg a) = a"
  by (cases a) auto

lemma fsub_swap: "fsub a b = fneg (fsub b a)"
  by (simp add: fsub_def fneg_fadd fneg_fneg fadd_commute)

lemma fmul_fneg_left: "fmul (fneg a) b = fneg (fmul a b)"
  by (cases a; cases b) auto

lemma fmul_fneg_right: "fmul a (fneg b) = fneg (fmul a b)"
  by (cases a; cases b) auto

lemma fabs_fneg: "fabs (fneg a) = fabs a"
  by (cases a) auto

lemma pow_abs_fneg: "pow_abs (fneg x) y = pow_abs x y"
  by (cases y) (simp_all add: fabs_fneg)

lemma vsub_swap: "vsub p q = vneg (vsub q p)"
  by (simp add: vsub_def vneg_def fsub_swap[of "vx p" "vx q"] fsub_swap[of "vy p" "vy q"]
      fsub_swap[of "vz p" "vz q"])

lemma dot_vneg_vneg: "dot (vneg u) (vneg v) = dot u v"
  by (simp add: dot_def vneg_def fmul_fneg_left fmul_fneg_right fneg_fneg)

lemma dot_vneg_right: "dot u (vneg v) = fneg (dot u v)"
  by (simp add: dot_def vneg_def fmul_fneg_right fneg_fadd)

lemma dot_vneg_left: "dot (vneg u) v = fneg (dot u v)"
  by (simp add: dot_def vneg_def fmul_fneg_left fneg_fadd)

lemma vscaler_vneg: "vscaler (vneg v) s = vneg (vscaler v s)"
  by (simp add: vscaler_def vneg_def fmul_fneg_left)

lemma vscaler_fneg: "vscaler v (fneg s) = vneg (vscaler v s)"
  by (simp add: vscaler_def vneg_def fmul_fneg_right)

lemma normalize_vneg: "normalize (vneg v) = vneg (normalize v)"
  by (simp add: normalize_def dot_vneg_vneg vscaler_vneg)

lemma vsub_vneg_vneg: "vsub (vneg u) (vneg v) = vneg (vsub u v)"
  by (simp add: vsub_def vneg_def fsub_def fneg_fadd)

lemma reflect_vneg: "reflect (vneg i) n = vneg (reflect i n)"
  by (simp add: reflect_def dot_vneg_right vscaler_fneg vscaler_vneg vsub_vneg_vneg)

lemma computePhongShading_even:
  "computePhongShading color gradient (vneg L) V k_a k_d k_s k_alpha
     = computePhongShading color gradient L V k_a k_d k_s k_alpha"
  by (simp add: computePhongShading_def dot_vneg_right dot_vneg_left reflect_vneg
      normalize_vneg fabs_fneg pow_abs_fneg)

lemma lightVector_neg: "lightVector ray samplePos = vneg (normalize (vsub (origin ray) samplePos))"
  unfolding lightVector_def by (subst vsub_swap) (simp add: normalize_vneg)

text \<open>
  Claim C6, as the code has it. In every shaded sample of the composite and of the MIDA
  tracer the light vector passed to the shading function is
  \<^verbatim>\<open>normalize(samplePos - ray.origin)\<close>: the normalised direction from the ray origin to
  the sample. That holds for whatever function stands in the place of
  \<^verbatim>\<open>computePhongShading\<close>, so it is a statement about the argument and not about the
  colour. The vector is the opposite of the direction from the sample back to the
  origin; \<^verbatim>\<open>computePhongShading\<close> itself takes the absolute value of both cosines, so
  the colour it returns is the colour the opposite vector would give.
\<close>

theorem light_vector_origin_to_sample:
  "volumeShading cfg \<Longrightarrow>
     shadedColorComposite cfg gv cam ray t tfColor
       = shadedColorCompositeWith computePhongShading cfg gv cam ray t tfColor
     \<and> finalColorMIDA cfg gv cam ray samplePos tfColor
       = finalColorMIDAWith computePhongShading cfg gv cam ray samplePos tfColor
     \<and> (\<forall>shade. shadedColorCompositeWith shade cfg gv cam ray t tfColor =
          (let precisePos = vadd (origin ray) (vscale t (direction ray))
           in shade tfColor (getGradientInterpolate gv precisePos)
                (normalize (vsub precisePos (origin ray)))
                (normalize (vsub (position cam) precisePos))
                (ka cfg) (kd cfg) (ks cfg) (alpha cfg)))
     \<and> (\<forall>shade. finalColorMIDAWith shade cfg gv cam ray samplePos tfColor =
          (let phongShading =
                 shade tfColor (getGradientInterpolate gv samplePos)
                   (normalize (vsub samplePos (origin ray)))
                   (normalize (vsub (position cam) samplePos))
                   (ka cfg) (kd cfg) (ks cfg) (alpha cfg)
           in if smoothstep cfg then
                mix3 tfColor phongShading
                  (glm_smoothstep (fmul (gl cfg) (maxMagnitude gv))
                     (fmul (gh cfg) (maxMagnitude gv))
                     (magnitude (getGradientInterpolate gv samplePos)))
              else phongShading))
     \<and> normalize (vsub samplePos (origin ray)) = vneg (normalize (vsub (origin ray) samplePos))
     \<and> computePhongShading tfColor (getGradientInterpolate gv samplePos)
          (normalize (vsub samplePos (origin ray))) (normalize (vsub (position cam) samplePos))
          (ka cfg) (kd cfg) (ks cfg) (alpha cfg)
        = computePhongShading tfColor (getGradientInterpolate gv samplePos)
          (normalize (vsub (origin ray) samplePos)) (normalize (vsub (position cam) samplePos))
          (ka cfg) (kd cfg) (ks cfg) (alpha cfg)"
  using lightVector_neg[of ray samplePos]
  by (simp add: shadedColorComposite_def finalColorMIDA_def shadedColorCompositeWith_def
      finalColorMIDAWith_def Let_def computePhongShading_even lightVector_def)

lemma example_sample_position:
  "vadd (origin exampleRay) (vscale (Num 1) (direction exampleRay)) = Vec3 (Num 1) (Num 0) (Num 0)"
  by (simp add: exampleRay_def vadd_def vscale_def)

lemma example_light:
  "normalize (vsub (Vec3 (Num 1) (Num 0) (Num 0)) (origin exampleRay))
     = Vec3 (Num 1) (Num 0) (Num 0)"
  "normalize (vsub (origin exampleRay) (Vec3 (Num 1) (Num 0) (Num 0)))
     = Vec3 (Num (- 1)) (Num 0) (Num 0)"
  by (simp_all add: normalize_def inversesqrt_def dot_def vsub_def vscaler_def fsub_def
      exampleRay_def)

text \<open>
  For the example ray, which starts at \<open>(0, 0, 0)\<close>, and the sample at \<open>(1, 0, 0)\<close>
  both shading blocks pass the light vector \<open>(1, 0, 0)\<close>; with the direction from the
  sample to the origin the shading function would have received \<open>(- 1, 0, 0)\<close>.
\<close>

theorem light_vector_counterexample:
  "shadedColorCompositeWith passLight (exampleConfig\<lparr>volumeShading := True\<rparr>)
     exampleGradientVolume exampleCamera exampleRay (Num 1) (Vec3 (Num 1) (Num 0) (Num 0))
     = Vec3 (Num 1) (Num 0) (Num 0)
   \<and> finalColorMIDAWith passLight (exampleConfig\<lparr>volumeShading := True\<rparr>)
     exampleGradientVolume exampleCamera exampleRay (Vec3 (Num 1) (Num 0) (Num 0))
     (Vec3 (Num 1) (Num 0) (Num 0))
     = Vec3 (Num 1) (Num 0) (Num 0)
   \<and> passLight (Vec3 (Num 1) (Num 0) (Num 0))
       (getGradientInterpolate exampleGradientVolume (Vec3 (Num 1) (Num 0) (Num 0)))
       (normalize (vsub (origin exampleRay) (Vec3 (Num 1) (Num 0) (Num 0))))
       (normalize (vsub (position exampleCamera) (Vec3 (Num 1) (Num 0) (Num 0))))
       (ka exampleConfig) (kd exampleConfig) (ks exampleConfig) (alpha exampleConfig)
     = Vec3 (Num (- 1)) (Num 0) (Num 0)"
  by (simp add: shadedColorCompositeWith_def finalColorMIDAWith_def passLight_def lightVector_def
      example_sample_position example_light exampleConfig_def Let_def)

theorem light_vector_origin_to_sample_witness:
  "shadedColorCompositeWith passLight (exampleConfig\<lparr>volumeShading := True\<rparr>)
     exampleGradientVolume exampleCamera exampleRay (Num 1) (Vec3 (Num 0) (Num 1) (Num 0))
     = Vec3 (Num 1) (Num 0) (Num 0)
   \<and> shadedColorComposite (exampleConfig\<lparr>volumeShading := True\<rparr>)
     exampleGradientVolume exampleCamera exampleRay (Num 1) (Vec3 (Num 0) (Num 1) (Num 0))
     = shadedColorCompositeWith computePhongShading (exampleConfig\<lparr>volumeShading := True\<rparr>)
     exampleGradientVolume exampleCamera exampleRay (Num 1) (Vec3 (Num 0) (Num 1) (Num 0))"
proof -
  have "volumeShading (exampleConfig\<lparr>volumeShading := True\<rparr>)" by simp
  from light_vector_origin_to_sample[OF this, of exampleGradientVolume exampleCamera
      exampleRay "Num 1" "Vec3 (Num 0) (Num 1) (Num 0)" "Vec3 (Num 1) (Num 0) (Num 0)"]
  have a: "\<forall>shade. shadedColorCompositeWith shade (exampleConfig\<lparr>volumeShading := True\<rparr>)
      exampleGradientVolume exampleCamera exampleRay (Num 1) (Vec3 (Num 0) (Num 1) (Num 0)) =
          (let precisePos = vadd (origin exampleRay) (vscale (Num 1) (direction exampleRay))
           in shade (Vec3 (Num 0) (Num 1) (Num 0))
                (getGradientInterpolate exampleGradientVolume precisePos)
                (normalize (vsub precisePos (origin exampleRay)))
                (normalize (vsub (position exampleCamera) precisePos))
                (ka (exampleConfig\<lparr>volumeShading := True\<rparr>))
                (kd (exampleConfig\<lparr>volumeShading := True\<rparr>))
                (ks (exampleConfig\<lparr>volumeShading := True\<rparr>))
                (alpha (exampleConfig\<lparr>volumeShading := True\<rparr>)))"
    and b: "shadedColorComposite (exampleConfig\<lparr>volumeShading := True\<rparr>)
     exampleGradientVolume exampleCamera exampleRay (Num 1) (Vec3 (Num 0) (Num 1) (Num 0))
     = shadedColorCompositeWith computePhongShading (exampleConfig\<lparr>volumeShading := True\<rparr>)
     exampleGradientVolume exampleCamera exampleRay (Num 1) (Vec3 (Num 0) (Num 1) (Num 0))"
    by blast+
  from a[rule_format, of passLight] b show ?thesis
    by (simp add: passLight_def example_sample_position example_light Let_def)
qed

end
